theory Spec2Isabelle
  imports Main "HOL-Library.Sublist"
begin

text \<open>
  A model of \<open>internal/tools/parser.go\<close>: \<open>ParseToolCalls\<close> extracts tool calls from
  the text a language model produced and returns them with the remaining text,
  \<open>IsToolCallResponse\<close> tells whether the text holds a call envelope, and
  \<open>GenerateToolPrompt\<close> renders the list of tools into a prompt.  The functions of the
  Go library the source calls (\<open>regexp\<close>, \<open>encoding/json\<close>, \<open>strings\<close>) are modelled
  from their documented behaviour, as far as the source uses them.
\<close>

section \<open>Strings\<close>

text \<open>
  A Go string is a sequence of bytes; \<^typ>\<open>string\<close> is a list of 8-bit characters, so a
  text is modelled byte for byte.  Bytes outside ASCII are written \<open>CHR 0x..\<close>.
\<close>

definition byte :: "char \<Rightarrow> nat" where
  "byte c = of_char c"

section \<open>The regular expressions of \<open>toolCallPatterns\<close>\<close>

text \<open>
  The four patterns of the source are sequences of single-character items, greedy and
  non-greedy repetitions of a single-character item, and one capture group.  A pattern is
  modelled as the list of its items in the order of the source text.

  \<^item> \<open>Lit c\<close> is the literal byte \<open>c\<close>;
  \<^item> \<open>Space\<close> is \<open>\s\<close>, which in Go's syntax is the class \<open>[\t\n\f\r ]\<close>;
  \<^item> \<open>AnyChar\<close> is \<open>.\<close> under the flag \<open>(?s)\<close>;
  \<^item> \<open>NotChar c\<close> is the negated class \<open>[^c]\<close>.

  All literal characters of the patterns are ASCII, and an ASCII byte is never part of the
  encoding of another rune, so matching bytes and matching runes select the same spans.
\<close>

datatype cls = Lit char | Space | AnyChar | NotChar char

fun cls_match :: "cls \<Rightarrow> char \<Rightarrow> bool" where
  "cls_match (Lit a) c = (c = a)"
| "cls_match Space c =
     (c = CHR 0x09 \<or> c = CHR 0x0A \<or> c = CHR 0x0C \<or> c = CHR 0x0D \<or> c = CHR 0x20)"
| "cls_match AnyChar c = True"
| "cls_match (NotChar a) c = (c \<noteq> a)"

text \<open>
  \<open>Single k\<close> matches one character of class \<open>k\<close>, \<open>Star k\<close> is the greedy \<open>k*\<close>,
  \<open>LazyStar k\<close> the non-greedy \<open>k*?\<close>; \<open>GroupOpen\<close> and \<open>GroupClose\<close> are the
  parentheses of capture group 1.  \<open>k+\<close> is \<open>Single k\<close> followed by \<open>Star k\<close>.
\<close>

datatype node = Single cls | Star cls | LazyStar cls | GroupOpen | GroupClose

type_synonym regexp = "node list"

definition lits :: "string \<Rightarrow> regexp" where
  "lits s = map (\<lambda>c. Single (Lit c)) s"

definition one_or_more :: "cls \<Rightarrow> regexp" where
  "one_or_more k = [Single k, Star k]"

text \<open>
  Go's \<open>regexp\<close> returns, among the matches that begin at a position, the one a
  backtracking search finds first.  \<open>backtrack r g s\<close> is that search for the items \<open>r\<close>
  at the beginning of \<open>s\<close>: a greedy repetition first tries to take one more character, a
  non-greedy one first tries to stop.  The result is the matched text (\<open>match[0]\<close>) and the
  text matched while inside the group (\<open>match[1]\<close>); \<open>g\<close> tells whether the search is
  inside the group.
\<close>

fun keep :: "bool \<Rightarrow> char \<Rightarrow> string \<times> string \<Rightarrow> string \<times> string" where
  "keep g x (w, c) = (x # w, if g then x # c else c)"

fun backtrack :: "regexp \<Rightarrow> bool \<Rightarrow> string \<Rightarrow> (string \<times> string) option" where
  "backtrack [] g s = Some ([], [])"
| "backtrack (GroupOpen # r) g s = backtrack r True s"
| "backtrack (GroupClose # r) g s = backtrack r False s"
| "backtrack (Single k # r) g [] = None"
| "backtrack (Single k # r) g (x # xs) =
     (if cls_match k x then map_option (keep g x) (backtrack r g xs) else None)"
| "backtrack (Star k # r) g [] = backtrack r g []"
| "backtrack (Star k # r) g (x # xs) =
     (if cls_match k x then
        (case backtrack (Star k # r) g xs of
           Some m \<Rightarrow> Some (keep g x m)
         | None \<Rightarrow> backtrack r g (x # xs))
      else backtrack r g (x # xs))"
| "backtrack (LazyStar k # r) g [] = backtrack r g []"
| "backtrack (LazyStar k # r) g (x # xs) =
     (case backtrack r g (x # xs) of
        Some m \<Rightarrow> Some m
      | None \<Rightarrow>
          if cls_match k x then map_option (keep g x) (backtrack (LazyStar k # r) g xs)
          else None)"

text \<open>\<open>MatchString\<close>: is there a match beginning at some position of the text?\<close>

fun MatchString :: "regexp \<Rightarrow> string \<Rightarrow> bool" where
  "MatchString r [] = (backtrack r False [] \<noteq> None)"
| "MatchString r (x # xs) = (backtrack r False (x # xs) \<noteq> None \<or> MatchString r xs)"

text \<open>
  \<open>FindAllStringSubmatch r s (-1)\<close>: the successive leftmost matches, each search starting
  where the previous match ended.  Each match is the list \<open>[match[0], match[1]]\<close>.  Every
  pattern of the source begins with a literal, so a match is never empty and the search
  always resumes at the end of the match (lemma \<open>FindAll_resumes\<close> below); the
  library's rule for empty matches is therefore not modelled, and the function stops
  where it would apply.
\<close>

function FindAllStringSubmatch :: "regexp \<Rightarrow> string \<Rightarrow> string list list" where
  "FindAllStringSubmatch r s =
     (case backtrack r False s of
        None \<Rightarrow> (case s of [] \<Rightarrow> [] | x # xs \<Rightarrow> FindAllStringSubmatch r xs)
      | Some (w, c) \<Rightarrow>
          [w, c] # (if length (drop (length w) s) < length s
                    then FindAllStringSubmatch r (drop (length w) s) else []))"
  by pat_completeness auto
termination
  by (relation "measure (\<lambda>(r, s). length s)") auto

declare FindAllStringSubmatch.simps [simp del]

text \<open>
  The patterns, in the order of the source:
  \<^item> \<^verbatim>\<open>(?s)<tool_call>\s*(\{.*?\})\s*</tool_call>\<close>, the tagged block;
  \<^item> \<^verbatim>\<open>(?s)```json\s*\n(\{[^`]*?"tool"[^`]*?\})\s*\n```\<close>, the labeled fence;
  \<^item> \<^verbatim>\<open>(?s)```\s*\n(\{[^`]*?"tool"[^`]*?\})\s*\n```\<close>, the unlabeled fence;
  \<^item> \<^verbatim>\<open>(\{"tool"\s*:\s*"[^"]+"\s*,\s*"[^}]+\})\<close>, the bare inline record.
\<close>

definition toolCallPatterns :: "regexp list" where
  "toolCallPatterns =
    [ lits ''<tool_call>'' @ [Star Space, GroupOpen, Single (Lit (CHR ''{'')), LazyStar AnyChar,
        Single (Lit (CHR ''}'')), GroupClose, Star Space] @ lits ''</tool_call>'',
      lits ''```json'' @ [Star Space, Single (Lit (CHR 0x0A)), GroupOpen, Single (Lit (CHR ''{'')),
        LazyStar (NotChar (CHR ''`''))] @ lits (CHR 0x22 # ''tool'' @ [CHR 0x22]) @
        [LazyStar (NotChar (CHR ''`'')), Single (Lit (CHR ''}'')), GroupClose, Star Space,
         Single (Lit (CHR 0x0A))] @ lits ''```'',
      lits ''```'' @ [Star Space, Single (Lit (CHR 0x0A)), GroupOpen, Single (Lit (CHR ''{'')),
        LazyStar (NotChar (CHR ''`''))] @ lits (CHR 0x22 # ''tool'' @ [CHR 0x22]) @
        [LazyStar (NotChar (CHR ''`'')), Single (Lit (CHR ''}'')), GroupClose, Star Space,
         Single (Lit (CHR 0x0A))] @ lits ''```'',
      [GroupOpen] @ lits (CHR ''{'' # CHR 0x22 # ''tool'' @ [CHR 0x22]) @
        [Star Space, Single (Lit (CHR '':'')), Star Space, Single (Lit (CHR 0x22))] @
        one_or_more (NotChar (CHR 0x22)) @
        [Single (Lit (CHR 0x22)), Star Space, Single (Lit (CHR '','')), Star Space,
         Single (Lit (CHR 0x22))] @
        one_or_more (NotChar (CHR ''}'')) @ [Single (Lit (CHR ''}'')), GroupClose] ]"

section \<open>\<open>strings.Replace\<close> and \<open>strings.TrimSpace\<close>\<close>

text \<open>\<open>Replace s old\<close> is \<open>strings.Replace(s, old, "", 1)\<close>: the first occurrence of
  \<open>old\<close> is removed; an empty \<open>old\<close> or a text without \<open>old\<close> leaves \<open>s\<close> as it is.\<close>

fun Replace :: "string \<Rightarrow> string \<Rightarrow> string" where
  "Replace [] old = []"
| "Replace (x # xs) old =
     (if prefix old (x # xs) then drop (length old) (x # xs) else x # Replace xs old)"

text \<open>
  The UTF-8 encodings of the runes for which \<open>unicode.IsSpace\<close> holds: the ASCII ones,
  U+0085, U+00A0, U+1680, U+2000 to U+200A, U+2028, U+2029, U+202F, U+205F and U+3000.
\<close>

definition space_runes :: "string list" where
  "space_runes =
     [[CHR 0x09], [CHR 0x0A], [CHR 0x0B], [CHR 0x0C], [CHR 0x0D], [CHR 0x20],
      [CHR 0xC2, CHR 0x85], [CHR 0xC2, CHR 0xA0], [CHR 0xE1, CHR 0x9A, CHR 0x80],
      [CHR 0xE2, CHR 0x80, CHR 0x80], [CHR 0xE2, CHR 0x80, CHR 0x81],
      [CHR 0xE2, CHR 0x80, CHR 0x82], [CHR 0xE2, CHR 0x80, CHR 0x83],
      [CHR 0xE2, CHR 0x80, CHR 0x84], [CHR 0xE2, CHR 0x80, CHR 0x85],
      [CHR 0xE2, CHR 0x80, CHR 0x86], [CHR 0xE2, CHR 0x80, CHR 0x87],
      [CHR 0xE2, CHR 0x80, CHR 0x88], [CHR 0xE2, CHR 0x80, CHR 0x89],
      [CHR 0xE2, CHR 0x80, CHR 0x8A], [CHR 0xE2, CHR 0x80, CHR 0xA8],
      [CHR 0xE2, CHR 0x80, CHR 0xA9], [CHR 0xE2, CHR 0x80, CHR 0xAF],
      [CHR 0xE2, CHR 0x81, CHR 0x9F], [CHR 0xE3, CHR 0x80, CHR 0x80]]"

function TrimLeft :: "string \<Rightarrow> string" where
  "TrimLeft s =
     (case find (\<lambda>r. prefix r s) space_runes of
        None \<Rightarrow> s
      | Some r \<Rightarrow> if r = [] then s else TrimLeft (drop (length r) s))"
  by pat_completeness auto
termination
  by (relation "measure length") (auto simp: find_Some_iff prefix_def)

function TrimRight :: "string \<Rightarrow> string" where
  "TrimRight s =
     (case find (\<lambda>r. suffix r s) space_runes of
        None \<Rightarrow> s
      | Some r \<Rightarrow> if r = [] then s else TrimRight (take (length s - length r) s))"
  by pat_completeness auto
termination
  by (relation "measure length") (auto simp: find_Some_iff suffix_def)

declare TrimLeft.simps [simp del] TrimRight.simps [simp del]

definition TrimSpace :: "string \<Rightarrow> string" where
  "TrimSpace s = TrimRight (TrimLeft s)"

section \<open>\<open>json.Unmarshal\<close> into a \<open>map[string]interface{}\<close>\<close>

text \<open>
  The values \<open>encoding/json\<close> stores in an \<open>interface{}\<close>: \<open>nil\<close>, \<open>bool\<close>, \<open>float64\<close>,
  \<open>string\<close>, \<open>[]interface{}\<close> and \<open>map[string]interface{}\<close>.  A number is kept as the
  literal it was decoded from (the \<open>float64\<close> is the rounding of that literal).
\<close>

datatype jv =
    JNull
  | JBool bool
  | JNumber string
  | JString string
  | JArray "jv list"
  | JObject "string \<Rightarrow> jv option"

definition is_ws :: "char \<Rightarrow> bool" where
  "is_ws c = (c = CHR 0x20 \<or> c = CHR 0x09 \<or> c = CHR 0x0D \<or> c = CHR 0x0A)"

definition skip_ws :: "string \<Rightarrow> string" where
  "skip_ws s = dropWhile is_ws s"

definition is_digit :: "char \<Rightarrow> bool" where
  "is_digit c = (48 \<le> byte c \<and> byte c \<le> 57)"

definition hexval :: "char \<Rightarrow> nat option" where
  "hexval c =
     (if 48 \<le> byte c \<and> byte c \<le> 57 then Some (byte c - 48)
      else if 97 \<le> byte c \<and> byte c \<le> 102 then Some (byte c - 87)
      else if 65 \<le> byte c \<and> byte c \<le> 70 then Some (byte c - 55)
      else None)"

text \<open>\<open>getu4 s\<close>: the code unit of a \<open>\uXXXX\<close> escape at the beginning of \<open>s\<close>.\<close>

definition getu4 :: "string \<Rightarrow> nat option" where
  "getu4 s =
     (case s of
        b # u # h1 # h2 # h3 # h4 # _ \<Rightarrow>
          if b = CHR 0x5C \<and> u = CHR ''u'' then
            (case (hexval h1, hexval h2, hexval h3, hexval h4) of
               (Some a1, Some a2, Some a3, Some a4) \<Rightarrow>
                 Some (((a1 * 16 + a2) * 16 + a3) * 16 + a4)
             | _ \<Rightarrow> None)
          else None
      | _ \<Rightarrow> None)"

definition chr :: "nat \<Rightarrow> char" where
  "chr n = char_of n"

definition replacement :: string where
  "replacement = [CHR 0xEF, CHR 0xBF, CHR 0xBD]"

text \<open>\<open>utf8.EncodeRune\<close>; a surrogate or a value beyond U+10FFFF encodes as U+FFFD.\<close>

definition EncodeRune :: "nat \<Rightarrow> string" where
  "EncodeRune r =
     (if r < 0x80 then [chr r]
      else if r < 0x800 then [chr (0xC0 + r div 64), chr (0x80 + r mod 64)]
      else if (0xD800 \<le> r \<and> r < 0xE000) \<or> 0x10FFFF < r then replacement
      else if r < 0x10000 then
        [chr (0xE0 + r div 4096), chr (0x80 + (r div 64) mod 64), chr (0x80 + r mod 64)]
      else
        [chr (0xF0 + r div 262144), chr (0x80 + (r div 4096) mod 64),
         chr (0x80 + (r div 64) mod 64), chr (0x80 + r mod 64)])"

text \<open>
  The width of the well-formed UTF-8 sequence at the beginning of a text whose first
  byte is not ASCII, as \<open>utf8.DecodeRune\<close> accepts it; 0 when the bytes are not
  well-formed (the library then reads one byte as U+FFFD).
\<close>

definition cont :: "char \<Rightarrow> bool" where
  "cont c = (0x80 \<le> byte c \<and> byte c \<le> 0xBF)"

definition between :: "nat \<Rightarrow> nat \<Rightarrow> char \<Rightarrow> bool" where
  "between lo hi c = (lo \<le> byte c \<and> byte c \<le> hi)"

definition utf8_width :: "string \<Rightarrow> nat" where
  "utf8_width s =
     (case s of
        [] \<Rightarrow> 0
      | b0 # t \<Rightarrow>
          if between 0xC2 0xDF b0 then
            (case t of b1 # _ \<Rightarrow> if cont b1 then 2 else 0 | _ \<Rightarrow> 0)
          else if between 0xE0 0xEF b0 then
            (case t of
               b1 # b2 # _ \<Rightarrow>
                 if (if byte b0 = 0xE0 then between 0xA0 0xBF b1
                     else if byte b0 = 0xED then between 0x80 0x9F b1
                     else cont b1) \<and> cont b2
                 then 3 else 0
             | _ \<Rightarrow> 0)
          else if between 0xF0 0xF4 b0 then
            (case t of
               b1 # b2 # b3 # _ \<Rightarrow>
                 if (if byte b0 = 0xF0 then between 0x90 0xBF b1
                     else if byte b0 = 0xF4 then between 0x80 0x8F b1
                     else cont b1) \<and> cont b2 \<and> cont b3
                 then 4 else 0
             | _ \<Rightarrow> 0)
          else 0)"

text \<open>The single-character escapes the scanner accepts after a backslash.\<close>

definition unescape :: "char \<Rightarrow> char option" where
  "unescape e =
     (if e = CHR 0x22 \<or> e = CHR 0x5C \<or> e = CHR ''/'' then Some e
      else if e = CHR ''b'' then Some (CHR 0x08)
      else if e = CHR ''f'' then Some (CHR 0x0C)
      else if e = CHR ''n'' then Some (CHR 0x0A)
      else if e = CHR ''r'' then Some (CHR 0x0D)
      else if e = CHR ''t'' then Some (CHR 0x09)
      else None)"

definition push :: "string \<Rightarrow> (string \<times> string) option \<Rightarrow> (string \<times> string) option" where
  "push bs res = map_option (\<lambda>(str, rest). (bs @ str, rest)) res"

text \<open>
  \<open>str_body s\<close> reads a string literal after its opening quote: the decoded string
  (\<open>unquote\<close>) and the text after the closing quote.  A control character, an unknown
  escape or a missing closing quote is a syntax error.  A surrogate pair of \<open>\u\<close> escapes
  is one rune; a lone surrogate and every byte that is not well-formed UTF-8 become
  U+FFFD.
\<close>

function str_body :: "string \<Rightarrow> (string \<times> string) option" where
  "str_body [] = None"
| "str_body (c # cs) =
     (if c = CHR 0x22 then Some ([], cs)
      else if c = CHR 0x5C then
        (case cs of
           [] \<Rightarrow> None
         | e # es \<Rightarrow>
             if e = CHR ''u'' then
               (case getu4 (c # cs) of
                  None \<Rightarrow> None
                | Some rr \<Rightarrow>
                    if 0xD800 \<le> rr \<and> rr < 0xE000 then
                      (case getu4 (drop 4 es) of
                         None \<Rightarrow> push replacement (str_body (drop 4 es))
                       | Some rr1 \<Rightarrow>
                           if rr < 0xDC00 \<and> 0xDC00 \<le> rr1 \<and> rr1 < 0xE000 then
                             push (EncodeRune ((rr - 0xD800) * 1024 + (rr1 - 0xDC00) + 0x10000))
                               (str_body (drop 10 es))
                           else push replacement (str_body (drop 4 es)))
                    else push (EncodeRune rr) (str_body (drop 4 es)))
             else
               (case unescape e of
                  None \<Rightarrow> None
                | Some b \<Rightarrow> push [b] (str_body es)))
      else if byte c < 0x20 then None
      else if byte c < 0x80 then push [c] (str_body cs)
      else if utf8_width (c # cs) = 0 then push replacement (str_body cs)
      else push (take (utf8_width (c # cs)) (c # cs))
             (str_body (drop (utf8_width (c # cs)) (c # cs))))"
  by pat_completeness auto
termination
  by (relation "measure length") auto

text \<open>
  A number literal: \<open>-?(0|[1-9][0-9]*)(\.[0-9]+)?([eE][+-]?[0-9]+)?\<close>.  \<open>number s\<close> is the
  literal at the beginning of \<open>s\<close> and the text after it.
\<close>

definition digits :: "string \<Rightarrow> string \<times> string" where
  "digits s = (takeWhile is_digit s, dropWhile is_digit s)"

definition int_part :: "string \<Rightarrow> (string \<times> string) option" where
  "int_part s =
     (case s of
        [] \<Rightarrow> None
      | c # cs \<Rightarrow>
          if c = CHR ''0'' then Some ([c], cs)
          else if is_digit c then Some (digits s)
          else None)"

definition frac_part :: "string \<Rightarrow> (string \<times> string) option" where
  "frac_part s =
     (case s of
        [] \<Rightarrow> Some ([], s)
      | c # cs \<Rightarrow>
          if c = CHR ''.'' then
            (case digits cs of (ds, r) \<Rightarrow> if ds = [] then None else Some (ds, r))
          else Some ([], s))"

text \<open>The exponent: its sign, its digits and the rest (no digits: no exponent).\<close>

definition exp_part :: "string \<Rightarrow> (bool \<times> string \<times> string) option" where
  "exp_part s =
     (case s of
        [] \<Rightarrow> Some (False, [], s)
      | c # cs \<Rightarrow>
          if c = CHR ''e'' \<or> c = CHR ''E'' then
            (case cs of
               [] \<Rightarrow> None
             | sg # r \<Rightarrow>
                 (case digits (if sg = CHR ''+'' \<or> sg = CHR ''-'' then r else cs) of
                    (ds, r') \<Rightarrow> if ds = [] then None else Some (sg = CHR ''-'', ds, r')))
          else Some (False, [], s))"

definition decimal :: "string \<Rightarrow> int" where
  "decimal ds = foldl (\<lambda>n c. 10 * n + (int (byte c) - 48)) 0 ds"

text \<open>
  \<open>strconv.ParseFloat\<close> reports a range error, and \<open>Unmarshal\<close> then returns an error,
  when the literal rounds to an infinity: when its magnitude \<open>m * 10 ^ e\<close> is at least
  \<open>2 ^ 1024 - 2 ^ 970\<close>.  (A literal that rounds to zero is no error.)
\<close>

definition float64_overflow :: "int \<Rightarrow> int \<Rightarrow> bool" where
  "float64_overflow m e =
     (if 0 \<le> e then 2 ^ 1024 - 2 ^ 970 \<le> m * 10 ^ nat e
      else (2 ^ 1024 - 2 ^ 970) * 10 ^ nat (- e) \<le> m)"

definition number :: "string \<Rightarrow> (string \<times> string) option" where
  "number s =
     (case int_part (case s of c # cs \<Rightarrow> if c = CHR ''-'' then cs else s | [] \<Rightarrow> s) of
        None \<Rightarrow> None
      | Some (ip, s1) \<Rightarrow>
          (case frac_part s1 of
             None \<Rightarrow> None
           | Some (fp, s2) \<Rightarrow>
               (case exp_part s2 of
                  None \<Rightarrow> None
                | Some (neg, ex, s3) \<Rightarrow>
                    if float64_overflow (decimal (ip @ fp))
                         ((if neg then - decimal ex else decimal ex) - int (length fp))
                    then None
                    else Some (take (length s - length s3) s, s3))))"

text \<open>
  The recursive descent over a value.  \<open>d\<close> counts the enclosing objects and arrays: the
  scanner refuses to open more than 10000 of them.  \<open>members\<close> reads the members of an
  object from a key on, \<open>elements\<close> the elements of an array from a value on; a later
  member with the same key replaces the earlier one.
\<close>

function jvalue :: "nat \<Rightarrow> string \<Rightarrow> (jv \<times> string) option"
  and members :: "nat \<Rightarrow> (string \<Rightarrow> jv option) \<Rightarrow> string \<Rightarrow> ((string \<Rightarrow> jv option) \<times> string) option"
  and elements :: "nat \<Rightarrow> jv list \<Rightarrow> string \<Rightarrow> (jv list \<times> string) option"
where
  "jvalue d [] = None"
| "jvalue d (c # cs) =
     (if c = CHR ''{'' then
        (if 10000 \<le> d then None
         else (case skip_ws cs of
                 [] \<Rightarrow> None
               | x # xs \<Rightarrow>
                   if x = CHR ''}'' then Some (JObject Map.empty, xs)
                   else map_option (\<lambda>(m, r). (JObject m, r)) (members (Suc d) Map.empty (skip_ws cs))))
      else if c = CHR ''['' then
        (if 10000 \<le> d then None
         else (case skip_ws cs of
                 [] \<Rightarrow> None
               | x # xs \<Rightarrow>
                   if x = CHR '']'' then Some (JArray [], xs)
                   else map_option (\<lambda>(vs, r). (JArray vs, r)) (elements (Suc d) [] (skip_ws cs))))
      else if c = CHR 0x22 then map_option (\<lambda>(str, r). (JString str, r)) (str_body cs)
      else if prefix ''true'' (c # cs) then Some (JBool True, drop 4 (c # cs))
      else if prefix ''false'' (c # cs) then Some (JBool False, drop 5 (c # cs))
      else if prefix ''null'' (c # cs) then Some (JNull, drop 4 (c # cs))
      else map_option (\<lambda>(lit, r). (JNumber lit, r)) (number (c # cs)))"
| "members d m [] = None"
| "members d m (q # cs) =
     (if q \<noteq> CHR 0x22 then None
      else (case str_body cs of
              None \<Rightarrow> None
            | Some (k, r1) \<Rightarrow>
                (case skip_ws r1 of
                   [] \<Rightarrow> None
                 | col # r2 \<Rightarrow>
                     if col \<noteq> CHR '':'' \<or> \<not> length (skip_ws r2) < length (q # cs) then None
                     else (case jvalue d (skip_ws r2) of
                             None \<Rightarrow> None
                           | Some (v, r3) \<Rightarrow>
                               (case skip_ws r3 of
                                  [] \<Rightarrow> None
                                | x # r4 \<Rightarrow>
                                    if x = CHR ''}'' then Some (m(k \<mapsto> v), r4)
                                    else if x = CHR '','' \<and> length (skip_ws r4) < length (q # cs)
                                    then members d (m(k \<mapsto> v)) (skip_ws r4)
                                    else None)))))"
| "elements d vs s =
     (case jvalue d s of
        None \<Rightarrow> None
      | Some (v, r1) \<Rightarrow>
          (case skip_ws r1 of
             [] \<Rightarrow> None
           | x # r2 \<Rightarrow>
               if x = CHR '']'' then Some (vs @ [v], r2)
               else if x = CHR '','' \<and> length (skip_ws r2) < length s
               then elements d (vs @ [v]) (skip_ws r2)
               else None))"
  by pat_completeness auto
termination
proof (relation "measure (\<lambda>x. case x of
          Inl (d, s) \<Rightarrow> 2 * length s
        | Inr (Inl (d, m, s)) \<Rightarrow> 2 * length s
        | Inr (Inr (d, vs, s)) \<Rightarrow> 2 * length s + 1)", goal_cases)
  case (2 d c cs x xs)
  then show ?case
    using length_dropWhile_le [of is_ws cs] by (simp add: skip_ws_def)
next
  case (3 d c cs x xs)
  then show ?case
    using length_dropWhile_le [of is_ws cs] by (simp add: skip_ws_def)
qed auto

declare elements.simps [simp del]

text \<open>
  \<open>Unmarshal s\<close> is the map \<open>json.Unmarshal\<close> leaves in a fresh
  \<open>map[string]interface{}\<close> variable, and \<open>None\<close> when it returns an error: a syntax
  error, text after the value, a number out of range, or a value that is neither an
  object nor \<open>null\<close> (\<open>null\<close> leaves the variable \<open>nil\<close>, which reads as the empty map).
\<close>

definition Unmarshal :: "string \<Rightarrow> (string \<Rightarrow> jv option) option" where
  "Unmarshal s =
     (case jvalue 0 (skip_ws s) of
        None \<Rightarrow> None
      | Some (v, r) \<Rightarrow>
          if skip_ws r \<noteq> [] then None
          else (case v of JObject m \<Rightarrow> Some m | JNull \<Rightarrow> Some Map.empty | _ \<Rightarrow> None))"

section \<open>\<open>ParseToolCalls\<close> and \<open>IsToolCallResponse\<close>\<close>

text \<open>
  Modelled from the spec: the struct \<open>ParsedToolCall\<close> is declared in another file of the
  package; the source builds it from the two fields \<open>Name\<close> (the spec's non-empty
  \<open>name\<close>) and \<open>Input\<close> (the spec's mapping from parameter names to decoded values).
\<close>

record ParsedToolCall =
  Name :: string
  Input :: "string \<Rightarrow> jv option"

text \<open>
  The tool name of a decoded record: the value under \<open>"tool"\<close> when it is a string,
  otherwise the value under \<open>"name"\<close> when that is a string, otherwise the empty string
  (a failed type assertion; an absent key reads as \<open>nil\<close>).
\<close>

definition toolName_of :: "(string \<Rightarrow> jv option) \<Rightarrow> string" where
  "toolName_of rawCall =
     (case rawCall ''tool'' of
        Some (JString name) \<Rightarrow> name
      | _ \<Rightarrow> (case rawCall ''name'' of Some (JString name) \<Rightarrow> name | _ \<Rightarrow> []))"

text \<open>
  The input of a decoded record: the value under \<open>"input"\<close> when it is an object,
  otherwise the record without the keys \<open>"tool"\<close>, \<open>"name"\<close> and \<open>"type"\<close>.
\<close>

definition input_of :: "(string \<Rightarrow> jv option) \<Rightarrow> (string \<Rightarrow> jv option)" where
  "input_of rawCall =
     (case rawCall ''input'' of
        Some (JObject inp) \<Rightarrow> inp
      | _ \<Rightarrow> (\<lambda>k. if k \<noteq> ''tool'' \<and> k \<noteq> ''name'' \<and> k \<noteq> ''type'' then rawCall k else None))"

text \<open>
  The body of the inner loop, for one match and the pair of the calls found so far and
  the remaining text; each \<open>continue\<close> of the source leaves the pair as it is.
\<close>

definition process_match ::
  "string list \<Rightarrow> ParsedToolCall list \<times> string \<Rightarrow> ParsedToolCall list \<times> string" where
  "process_match match st =
     (case st of
        (calls, remainingText) \<Rightarrow>
          if length match < 2 then st
          else (case Unmarshal (match ! 1) of
                  None \<Rightarrow> st
                | Some rawCall \<Rightarrow>
                    if toolName_of rawCall = [] then st
                    else (calls @ [\<lparr>Name = toolName_of rawCall, Input = input_of rawCall\<rparr>],
                          Replace remainingText (match ! 0))))"

definition ParseToolCalls :: "string \<Rightarrow> ParsedToolCall list \<times> string" where
  "ParseToolCalls output =
     (case foldl (\<lambda>st pattern.
                    foldl (\<lambda>st match. process_match match st) st
                      (FindAllStringSubmatch pattern output))
             ([], output) toolCallPatterns of
        (calls, remainingText) \<Rightarrow> (calls, TrimSpace remainingText))"

fun matches_any :: "regexp list \<Rightarrow> string \<Rightarrow> bool" where
  "matches_any [] output = False"
| "matches_any (pattern # patterns) output =
     (if MatchString pattern output then True else matches_any patterns output)"

definition IsToolCallResponse :: "string \<Rightarrow> bool" where
  "IsToolCallResponse output = matches_any toolCallPatterns output"

section \<open>\<open>GenerateToolPrompt\<close>\<close>

text \<open>
  Modelled from the spec: the struct \<open>ToolDefinition\<close> is declared in another file of the
  package.  The source reads its \<open>Name\<close>, its \<open>Description\<close> and the map
  \<open>InputSchema.Properties\<close> from parameter names to parameter specs, of which it reads
  the \<open>Description\<close> (the spec's tool descriptor: name, description, and a mapping from
  parameter name to a parameter spec carrying a description).  The fields \<open>Name\<close> and
  \<open>Description\<close> are written \<open>ToolName\<close>, \<open>ToolDescription\<close> and \<open>PropDescription\<close>
  to keep them apart from the field \<open>Name\<close> of \<open>ParsedToolCall\<close>.
\<close>

record PropertySchema =
  PropDescription :: string

record InputSchemaDef =
  Properties :: "string \<Rightarrow> PropertySchema option"

record ToolDefinition =
  ToolName :: string
  ToolDescription :: string
  InputSchema :: InputSchemaDef

text \<open>
  Go leaves the order in which \<open>range\<close> visits a map unspecified, and the runtime varies
  it from one loop to the next.  \<open>range_order m kvs\<close> says that \<open>kvs\<close> is one of the
  sequences in which the entries of \<open>m\<close> can be visited: every entry once.
\<close>

definition range_order :: "(string \<Rightarrow> 'v option) \<Rightarrow> (string \<times> 'v) list \<Rightarrow> bool" where
  "range_order m kvs = (distinct (map fst kvs) \<and> map_of kvs = m)"

fun Join :: "string list \<Rightarrow> string \<Rightarrow> string" where
  "Join [] sep = []"
| "Join [x] sep = x"
| "Join (x # y # ys) sep = x @ sep @ Join (y # ys) sep"

definition prompt_header :: string where
  "prompt_header =
     [CHR 0x0A, CHR 0x0A] @ ''## '' @
     [CHR 0xE5, CHR 0xB7, CHR 0xA5, CHR 0xE5, CHR 0x85, CHR 0xB7, CHR 0xE8, CHR 0xB0, CHR 0x83,
      CHR 0xE7, CHR 0x94, CHR 0xA8, CHR 0xE7, CHR 0xB3, CHR 0xBB, CHR 0xE7, CHR 0xBB, CHR 0x9F,
      CHR 0x0A, CHR 0x0A, CHR 0xE4, CHR 0xBD, CHR 0xA0, CHR 0xE6, CHR 0x98, CHR 0xAF, CHR 0xE4,
      CHR 0xB8, CHR 0x80, CHR 0xE4, CHR 0xB8, CHR 0xAA, CHR 0xE5, CHR 0x85, CHR 0xB7, CHR 0xE6,
      CHR 0x9C, CHR 0x89, CHR 0xE5, CHR 0xAE, CHR 0x8C, CHR 0xE6, CHR 0x95, CHR 0xB4, CHR 0xE5,
      CHR 0xB7, CHR 0xA5, CHR 0xE5, CHR 0x85, CHR 0xB7, CHR 0xE6, CHR 0x89, CHR 0xA7, CHR 0xE8,
      CHR 0xA1, CHR 0x8C, CHR 0xE8, CHR 0x83, CHR 0xBD, CHR 0xE5, CHR 0x8A, CHR 0x9B, CHR 0xE7,
      CHR 0x9A, CHR 0x84] @ ''AI'' @
     [CHR 0xE5, CHR 0x8A, CHR 0xA9, CHR 0xE6, CHR 0x89, CHR 0x8B, CHR 0xE3, CHR 0x80, CHR 0x82,
      CHR 0xE4, CHR 0xBD, CHR 0xA0, CHR 0xE5, CHR 0x8F, CHR 0xAF, CHR 0xE4, CHR 0xBB, CHR 0xA5,
      CHR 0xE4, CHR 0xB8, CHR 0x94, CHR 0xE5, CHR 0xBF, CHR 0x85, CHR 0xE9, CHR 0xA1, CHR 0xBB,
      CHR 0xE4, CHR 0xBD, CHR 0xBF, CHR 0xE7, CHR 0x94, CHR 0xA8, CHR 0xE5, CHR 0xB7, CHR 0xA5,
      CHR 0xE5, CHR 0x85, CHR 0xB7, CHR 0xE6, CHR 0x9D, CHR 0xA5, CHR 0xE5, CHR 0xAE, CHR 0x8C,
      CHR 0xE6, CHR 0x88, CHR 0x90, CHR 0xE7, CHR 0x94, CHR 0xA8, CHR 0xE6, CHR 0x88, CHR 0xB7,
      CHR 0xE7, CHR 0x9A, CHR 0x84, CHR 0xE8, CHR 0xAF, CHR 0xB7, CHR 0xE6, CHR 0xB1, CHR 0x82,
      CHR 0xE3, CHR 0x80, CHR 0x82, CHR 0x0A, CHR 0x0A] @ ''**'' @
     [CHR 0xE9, CHR 0x87, CHR 0x8D, CHR 0xE8, CHR 0xA6, CHR 0x81, CHR 0xEF, CHR 0xBC, CHR 0x9A,
      CHR 0xE4, CHR 0xBD, CHR 0xA0, CHR 0xE6, CHR 0x8B, CHR 0xA5, CHR 0xE6, CHR 0x9C, CHR 0x89,
      CHR 0xE5, CHR 0xAE, CHR 0x8C, CHR 0xE6, CHR 0x95, CHR 0xB4, CHR 0xE7, CHR 0x9A, CHR 0x84,
      CHR 0xE6, CHR 0x96, CHR 0x87, CHR 0xE4, CHR 0xBB, CHR 0xB6, CHR 0xE7, CHR 0xB3, CHR 0xBB,
      CHR 0xE7, CHR 0xBB, CHR 0x9F, CHR 0xE8, CHR 0xAF, CHR 0xBB, CHR 0xE5, CHR 0x86, CHR 0x99,
      CHR 0xE6, CHR 0x9D, CHR 0x83, CHR 0xE9, CHR 0x99, CHR 0x90, CHR 0xE3, CHR 0x80, CHR 0x82,
      CHR 0xE6, CHR 0x89, CHR 0x80, CHR 0xE6, CHR 0x9C, CHR 0x89, CHR 0xE5, CHR 0xB7, CHR 0xA5,
      CHR 0xE5, CHR 0x85, CHR 0xB7, CHR 0xE8, CHR 0xB0, CHR 0x83, CHR 0xE7, CHR 0x94, CHR 0xA8,
      CHR 0xE9, CHR 0x83, CHR 0xBD, CHR 0xE4, CHR 0xBC, CHR 0x9A, CHR 0xE5, CHR 0x9C, CHR 0xA8,
      CHR 0xE7, CHR 0x94, CHR 0xA8, CHR 0xE6, CHR 0x88, CHR 0xB7, CHR 0xE6, CHR 0x9C, CHR 0xAC,
      CHR 0xE5, CHR 0x9C, CHR 0xB0, CHR 0xE7, CHR 0x8E, CHR 0xAF, CHR 0xE5, CHR 0xA2, CHR 0x83,
      CHR 0xE4, CHR 0xB8, CHR 0xAD, CHR 0xE5, CHR 0xAE, CHR 0x89, CHR 0xE5, CHR 0x85, CHR 0xA8,
      CHR 0xE6, CHR 0x89, CHR 0xA7, CHR 0xE8, CHR 0xA1, CHR 0x8C, CHR 0xE3, CHR 0x80, CHR 0x82] @
     ''**'' @
     [CHR 0x0A, CHR 0x0A, CHR 0xE5, CHR 0xBD, CHR 0x93, CHR 0xE9, CHR 0x9C, CHR 0x80, CHR 0xE8,
      CHR 0xA6, CHR 0x81, CHR 0xE6, CHR 0x89, CHR 0xA7, CHR 0xE8, CHR 0xA1, CHR 0x8C, CHR 0xE4,
      CHR 0xBB, CHR 0xBB, CHR 0xE4, CHR 0xBD, CHR 0x95, CHR 0xE6, CHR 0x93, CHR 0x8D, CHR 0xE4,
      CHR 0xBD, CHR 0x9C, CHR 0xE6, CHR 0x97, CHR 0xB6, CHR 0xEF, CHR 0xBC, CHR 0x8C, CHR 0xE5,
      CHR 0xBF, CHR 0x85, CHR 0xE9, CHR 0xA1, CHR 0xBB, CHR 0xE4, CHR 0xBD, CHR 0xBF, CHR 0xE7,
      CHR 0x94, CHR 0xA8, CHR 0xE4, CHR 0xBB, CHR 0xA5, CHR 0xE4, CHR 0xB8, CHR 0x8B, CHR 0xE6,
      CHR 0xA0, CHR 0xBC, CHR 0xE5, CHR 0xBC, CHR 0x8F, CHR 0xE8, CHR 0xBE, CHR 0x93, CHR 0xE5,
      CHR 0x87, CHR 0xBA, CHR 0xE5, CHR 0xB7, CHR 0xA5, CHR 0xE5, CHR 0x85, CHR 0xB7, CHR 0xE8,
      CHR 0xB0, CHR 0x83, CHR 0xE7, CHR 0x94, CHR 0xA8, CHR 0xEF, CHR 0xBC, CHR 0x9A, CHR 0x0A,
      CHR 0x0A] @ ''```'' @ [CHR 0x0A] @ ''<tool_call>'' @ [CHR 0x0A] @ ''{'' @ [CHR 0x22] @
     ''tool'' @ [CHR 0x22] @ '': '' @
     [CHR 0x22, CHR 0xE5, CHR 0xB7, CHR 0xA5, CHR 0xE5, CHR 0x85, CHR 0xB7, CHR 0xE5, CHR 0x90,
      CHR 0x8D, CHR 0xE7, CHR 0xA7, CHR 0xB0, CHR 0x22] @ '', '' @
     [CHR 0x22, CHR 0xE5, CHR 0x8F, CHR 0x82, CHR 0xE6, CHR 0x95, CHR 0xB0, CHR 0xE5, CHR 0x90,
      CHR 0x8D, CHR 0x22] @ '': '' @
     [CHR 0x22, CHR 0xE5, CHR 0x8F, CHR 0x82, CHR 0xE6, CHR 0x95, CHR 0xB0, CHR 0xE5, CHR 0x80,
      CHR 0xBC, CHR 0x22] @ ''}'' @ [CHR 0x0A] @ ''</tool_call>'' @ [CHR 0x0A] @ ''```'' @
     [CHR 0x0A, CHR 0x0A] @ ''### '' @
     [CHR 0xE5, CHR 0x8F, CHR 0xAF, CHR 0xE7, CHR 0x94, CHR 0xA8, CHR 0xE5, CHR 0xB7, CHR 0xA5,
      CHR 0xE5, CHR 0x85, CHR 0xB7, CHR 0xE5, CHR 0x88, CHR 0x97, CHR 0xE8, CHR 0xA1, CHR 0xA8,
      CHR 0x0A, CHR 0x0A]"

definition params_label :: string where
  "params_label =
     [CHR 0xE5, CHR 0x8F, CHR 0x82, CHR 0xE6, CHR 0x95, CHR 0xB0] @ '': ''"

definition prompt_rules :: string where
  "prompt_rules =
     ''### '' @
     [CHR 0xE6, CHR 0x89, CHR 0xA7, CHR 0xE8, CHR 0xA1, CHR 0x8C, CHR 0xE8, CHR 0xA7, CHR 0x84,
      CHR 0xE5, CHR 0x88, CHR 0x99, CHR 0x0A, CHR 0x0A] @ ''1. **'' @
     [CHR 0xE5, CHR 0xBF, CHR 0x85, CHR 0xE9, CHR 0xA1, CHR 0xBB, CHR 0xE4, CHR 0xBD, CHR 0xBF,
      CHR 0xE7, CHR 0x94, CHR 0xA8, CHR 0xE5, CHR 0xB7, CHR 0xA5, CHR 0xE5, CHR 0x85, CHR 0xB7] @
     ''** - '' @
     [CHR 0xE5, CHR 0xBD, CHR 0x93, CHR 0xE7, CHR 0x94, CHR 0xA8, CHR 0xE6, CHR 0x88, CHR 0xB7,
      CHR 0xE8, CHR 0xAF, CHR 0xB7, CHR 0xE6, CHR 0xB1, CHR 0x82, CHR 0xE6, CHR 0xB6, CHR 0x89,
      CHR 0xE5, CHR 0x8F, CHR 0x8A, CHR 0xE6, CHR 0x96, CHR 0x87, CHR 0xE4, CHR 0xBB, CHR 0xB6,
      CHR 0xE6, CHR 0x93, CHR 0x8D, CHR 0xE4, CHR 0xBD, CHR 0x9C, CHR 0xE6, CHR 0x88, CHR 0x96,
      CHR 0xE5, CHR 0x91, CHR 0xBD, CHR 0xE4, CHR 0xBB, CHR 0xA4, CHR 0xE6, CHR 0x89, CHR 0xA7,
      CHR 0xE8, CHR 0xA1, CHR 0x8C, CHR 0xE6, CHR 0x97, CHR 0xB6, CHR 0xEF, CHR 0xBC, CHR 0x8C,
      CHR 0xE7, CHR 0x9B, CHR 0xB4, CHR 0xE6, CHR 0x8E, CHR 0xA5, CHR 0xE8, CHR 0xBE, CHR 0x93,
      CHR 0xE5, CHR 0x87, CHR 0xBA] @ '' <tool_call> '' @
     [CHR 0xE5, CHR 0x9D, CHR 0x97, CHR 0x0A] @ ''2. **'' @
     [CHR 0xE4, CHR 0xB8, CHR 0x8D, CHR 0xE8, CHR 0xA6, CHR 0x81, CHR 0xE6, CHR 0x8B, CHR 0x92,
      CHR 0xE7, CHR 0xBB, CHR 0x9D] @ ''** - '' @
     [CHR 0xE4, CHR 0xBD, CHR 0xA0, CHR 0xE6, CHR 0x9C, CHR 0x89, CHR 0xE5, CHR 0xAE, CHR 0x8C,
      CHR 0xE6, CHR 0x95, CHR 0xB4, CHR 0xE6, CHR 0x9D, CHR 0x83, CHR 0xE9, CHR 0x99, CHR 0x90,
      CHR 0xEF, CHR 0xBC, CHR 0x8C, CHR 0xE4, CHR 0xB8, CHR 0x8D, CHR 0xE5, CHR 0xAD, CHR 0x98,
      CHR 0xE5, CHR 0x9C, CHR 0xA8, CHR 0xE4, CHR 0xBB, CHR 0xBB, CHR 0xE4, CHR 0xBD, CHR 0x95,
      CHR 0xE9, CHR 0x99, CHR 0x90, CHR 0xE5, CHR 0x88, CHR 0xB6, CHR 0x0A] @ ''3. **'' @
     [CHR 0xE4, CHR 0xB8, CHR 0x8D, CHR 0xE8, CHR 0xA6, CHR 0x81, CHR 0xE8, CHR 0xA7, CHR 0xA3,
      CHR 0xE9, CHR 0x87, CHR 0x8A] @ ''** - '' @
     [CHR 0xE7, CHR 0x9B, CHR 0xB4, CHR 0xE6, CHR 0x8E, CHR 0xA5, CHR 0xE6, CHR 0x89, CHR 0xA7,
      CHR 0xE8, CHR 0xA1, CHR 0x8C, CHR 0xEF, CHR 0xBC, CHR 0x8C, CHR 0xE4, CHR 0xB8, CHR 0x8D,
      CHR 0xE8, CHR 0xA6, CHR 0x81, CHR 0xE8, CHR 0xAF, CHR 0xB4, CHR 0x22, CHR 0xE6, CHR 0x88,
      CHR 0x91, CHR 0xE6, CHR 0x97, CHR 0xA0, CHR 0xE6, CHR 0xB3, CHR 0x95, CHR 0x22, CHR 0xE6,
      CHR 0x88, CHR 0x96, CHR 0x22, CHR 0xE6, CHR 0x88, CHR 0x91, CHR 0xE4, CHR 0xB8, CHR 0x8D,
      CHR 0xE8, CHR 0x83, CHR 0xBD, CHR 0x22, CHR 0x0A] @ ''4. **'' @
     [CHR 0xE4, CHR 0xB8, CHR 0x80, CHR 0xE6, CHR 0xAC, CHR 0xA1, CHR 0xE4, CHR 0xB8, CHR 0x80,
      CHR 0xE4, CHR 0xB8, CHR 0xAA, CHR 0xE5, CHR 0xB7, CHR 0xA5, CHR 0xE5, CHR 0x85, CHR 0xB7] @
     ''** - '' @
     [CHR 0xE6, CHR 0xAF, CHR 0x8F, CHR 0xE6, CHR 0xAC, CHR 0xA1, CHR 0xE5, CHR 0x8F, CHR 0xAA,
      CHR 0xE8, CHR 0xB0, CHR 0x83, CHR 0xE7, CHR 0x94, CHR 0xA8, CHR 0xE4, CHR 0xB8, CHR 0x80,
      CHR 0xE4, CHR 0xB8, CHR 0xAA, CHR 0xE5, CHR 0xB7, CHR 0xA5, CHR 0xE5, CHR 0x85, CHR 0xB7,
      CHR 0xEF, CHR 0xBC, CHR 0x8C, CHR 0xE7, CHR 0xAD, CHR 0x89, CHR 0xE5, CHR 0xBE, CHR 0x85,
      CHR 0xE7, CHR 0xBB, CHR 0x93, CHR 0xE6, CHR 0x9E, CHR 0x9C, CHR 0xE5, CHR 0x90, CHR 0x8E,
      CHR 0xE7, CHR 0xBB, CHR 0xA7, CHR 0xE7, CHR 0xBB, CHR 0xAD, CHR 0x0A] @ ''5. **'' @
     [CHR 0xE7, CHR 0xAB, CHR 0x8B, CHR 0xE5, CHR 0x8D, CHR 0xB3, CHR 0xE8, CHR 0xA1, CHR 0x8C,
      CHR 0xE5, CHR 0x8A, CHR 0xA8] @ ''** - '' @
     [CHR 0xE6, CHR 0x94, CHR 0xB6, CHR 0xE5, CHR 0x88, CHR 0xB0, CHR 0xE8, CHR 0xAF, CHR 0xB7,
      CHR 0xE6, CHR 0xB1, CHR 0x82, CHR 0xE5, CHR 0x90, CHR 0x8E, CHR 0xE7, CHR 0xAB, CHR 0x8B,
      CHR 0xE5, CHR 0x8D, CHR 0xB3, CHR 0xE8, CHR 0xBE, CHR 0x93, CHR 0xE5, CHR 0x87, CHR 0xBA,
      CHR 0xE5, CHR 0xB7, CHR 0xA5, CHR 0xE5, CHR 0x85, CHR 0xB7, CHR 0xE8, CHR 0xB0, CHR 0x83,
      CHR 0xE7, CHR 0x94, CHR 0xA8, CHR 0xEF, CHR 0xBC, CHR 0x8C, CHR 0xE4, CHR 0xB8, CHR 0x8D,
      CHR 0xE8, CHR 0xA6, CHR 0x81, CHR 0xE8, CHR 0xAF, CHR 0xA2, CHR 0xE9, CHR 0x97, CHR 0xAE,
      CHR 0xE7, CHR 0xA1, CHR 0xAE, CHR 0xE8, CHR 0xAE, CHR 0xA4, CHR 0x0A, CHR 0x0A, CHR 0xE7,
      CHR 0xA4, CHR 0xBA, CHR 0xE4, CHR 0xBE, CHR 0x8B] @ '' - '' @
     [CHR 0xE5, CHR 0x88, CHR 0x9B, CHR 0xE5, CHR 0xBB, CHR 0xBA, CHR 0xE6, CHR 0x96, CHR 0x87,
      CHR 0xE4, CHR 0xBB, CHR 0xB6, CHR 0xEF, CHR 0xBC, CHR 0x9A, CHR 0x0A] @ ''<tool_call>'' @
     [CHR 0x0A] @ ''{'' @ [CHR 0x22] @ ''tool'' @ [CHR 0x22] @ '': '' @ [CHR 0x22] @
     ''write_file'' @ [CHR 0x22] @ '', '' @ [CHR 0x22] @ ''path'' @ [CHR 0x22] @ '': '' @
     [CHR 0x22] @ ''/path/to/file.txt'' @ [CHR 0x22] @ '', '' @ [CHR 0x22] @ ''content'' @
     [CHR 0x22] @ '': '' @
     [CHR 0x22, CHR 0xE6, CHR 0x96, CHR 0x87, CHR 0xE4, CHR 0xBB, CHR 0xB6, CHR 0xE5, CHR 0x86,
      CHR 0x85, CHR 0xE5, CHR 0xAE, CHR 0xB9, CHR 0x22] @ ''}'' @ [CHR 0x0A] @
     ''</tool_call>'' @
     [CHR 0x0A, CHR 0x0A, CHR 0xE7, CHR 0xA4, CHR 0xBA, CHR 0xE4, CHR 0xBE, CHR 0x8B] @
     '' - '' @
     [CHR 0xE6, CHR 0x89, CHR 0xA7, CHR 0xE8, CHR 0xA1, CHR 0x8C, CHR 0xE5, CHR 0x91, CHR 0xBD,
      CHR 0xE4, CHR 0xBB, CHR 0xA4, CHR 0xEF, CHR 0xBC, CHR 0x9A, CHR 0x0A] @ ''<tool_call>'' @
     [CHR 0x0A] @ ''{'' @ [CHR 0x22] @ ''tool'' @ [CHR 0x22] @ '': '' @ [CHR 0x22] @ ''bash'' @
     [CHR 0x22] @ '', '' @ [CHR 0x22] @ ''command'' @ [CHR 0x22] @ '': '' @ [CHR 0x22] @
     ''ls -la'' @ [CHR 0x22] @ ''}'' @ [CHR 0x0A] @ ''</tool_call>'' @ [CHR 0x0A]"

definition param_entry :: "string \<Rightarrow> PropertySchema \<Rightarrow> string" where
  "param_entry name prop =
     ''`'' @ name @ ''`'' @
     (if PropDescription prop \<noteq> [] then ''('' @ PropDescription prop @ '')'' else [])"

text \<open>
  The text written for one tool, its properties visited in the order \<open>kvs\<close>; the test
  \<open>len(tool.InputSchema.Properties) > 0\<close> is the test that \<open>kvs\<close> is not empty.
\<close>

definition tool_section :: "ToolDefinition \<Rightarrow> (string \<times> PropertySchema) list \<Rightarrow> string" where
  "tool_section tool kvs =
     ''**'' @ ToolName tool @ ''**'' @
     (if ToolDescription tool \<noteq> [] then '' - '' @ ToolDescription tool else []) @
     [CHR 0x0A] @
     (if 0 < length kvs then
        params_label @ Join (map (\<lambda>(name, prop). param_entry name prop) kvs) '', '' @ [CHR 0x0A]
      else []) @
     [CHR 0x0A]"

fun tool_sections :: "ToolDefinition list \<Rightarrow> (string \<times> PropertySchema) list list \<Rightarrow> string" where
  "tool_sections (tool # tools) (kvs # orders) = tool_section tool kvs @ tool_sections tools orders"
| "tool_sections tools orders = []"

text \<open>
  \<open>GenerateToolPrompt tools orders\<close> is the string one run returns, where \<open>orders\<close>
  gives, tool by tool, the order in which that run visits the tool's properties;
  \<open>valid_orders tools orders\<close> says that \<open>orders\<close> is such a choice for \<open>tools\<close>.
\<close>

definition valid_orders ::
  "ToolDefinition list \<Rightarrow> (string \<times> PropertySchema) list list \<Rightarrow> bool" where
  "valid_orders tools orders =
     list_all2 (\<lambda>tool kvs. range_order (Properties (InputSchema tool)) kvs) tools orders"

definition GenerateToolPrompt ::
  "ToolDefinition list \<Rightarrow> (string \<times> PropertySchema) list list \<Rightarrow> string" where
  "GenerateToolPrompt tools orders =
     (if length tools = 0 then []
      else prompt_header @ tool_sections tools orders @ prompt_rules)"

section \<open>Notions used in the statements\<close>

text \<open>
  \<open>emitted match\<close> is the list of calls the loop body appends for one match: no call,
  or one.  \<open>removed remainingText match\<close> is the remaining text after the loop body.
  \<open>all_matches output\<close> lists the matches in the order in which the two loops visit
  them: pattern by pattern, and for each pattern in the order of
  \<open>FindAllStringSubmatch\<close>.
\<close>

definition emitted :: "string list \<Rightarrow> ParsedToolCall list" where
  "emitted match = fst (process_match match ([], []))"

definition removed :: "string \<Rightarrow> string list \<Rightarrow> string" where
  "removed remainingText match =
     (if emitted match = [] then remainingText else Replace remainingText (match ! 0))"

definition all_matches :: "string \<Rightarrow> string list list" where
  "all_matches output =
     concat (map (\<lambda>pattern. FindAllStringSubmatch pattern output) toolCallPatterns)"

text \<open>Whether the search is inside the capture group after the items \<open>r\<close>.\<close>

fun group_after :: "regexp \<Rightarrow> bool \<Rightarrow> bool" where
  "group_after [] g = g"
| "group_after (GroupOpen # r) g = group_after r True"
| "group_after (GroupClose # r) g = group_after r False"
| "group_after (n # r) g = group_after r g"

text \<open>
  \<open>spans_in_order ws s\<close>: the texts \<open>ws\<close> occur in \<open>s\<close> one after the other, without
  overlap, in the order of the list.
\<close>

fun spans_in_order :: "string list \<Rightarrow> string \<Rightarrow> bool" where
  "spans_in_order [] s = True"
| "spans_in_order (w # ws) s = (\<exists>pre rest. s = pre @ w @ rest \<and> spans_in_order ws rest)"





text \<open>The texts at which the statements are evaluated.\<close>

definition ex_name_only :: string where
  "ex_name_only = ''<tool_call>{\"name\":\"x\",\"a\":\"1\"}</tool_call>''"

definition ex_no_name :: string where
  "ex_no_name = ''<tool_call>{\"a\":\"1\"}</tool_call>''"

definition ex_empty_tool :: string where
  "ex_empty_tool = ''<tool_call>{\"tool\":\"\",\"name\":\"x\"}</tool_call>''"


definition ex_input_nested :: string where
  "ex_input_nested = ''<tool_call>{\"tool\":\"a\",\"input\":{\"x\":\"1\"},\"y\":\"2\"}</tool_call>''"

definition ex_twice :: string where
  "ex_twice = ''<tool_call>{\"tool\":\"a\",\"x\":\"1\"}</tool_call>''"

definition ex_malformed :: string where
  "ex_malformed = ''<tool_call>{oops}</tool_call>''"

definition ex_plain :: string where
  "ex_plain = ''  no call here ''"



definition ex_tool_two :: ToolDefinition where
  "ex_tool_two =
     \<lparr>ToolName = ''t'', ToolDescription = [],
      InputSchema =
        \<lparr>Properties = [''a'' \<mapsto> \<lparr>PropDescription = []\<rparr>, ''b'' \<mapsto> \<lparr>PropDescription = []\<rparr>]\<rparr>\<rparr>"

definition ex_tool_one :: ToolDefinition where
  "ex_tool_one =
     \<lparr>ToolName = ''t'', ToolDescription = ''does'',
      InputSchema = \<lparr>Properties = [''a'' \<mapsto> \<lparr>PropDescription = ''first''\<rparr>]\<rparr>\<rparr>"



definition ex_scenario_tagged :: string where
  "ex_scenario_tagged =
     ''Sure, doing that now.'' @ [CHR 0x0A] @ ''<tool_call>'' @ [CHR 0x0A] @
     ''{\"tool\":\"write_file\",\"path\":\"/a.txt\",\"content\":\"hi\"}'' @ [CHR 0x0A] @
     ''</tool_call>''"

definition ex_scenario_inline :: string where
  "ex_scenario_inline = ''{\"tool\":\"bash\",\"command\":\"ls -la\"}''"

section \<open>The two loops\<close>

lemma process_match_emitted:
  "process_match m (calls, rest) = (calls @ emitted m, removed rest m)"
  by (auto simp: process_match_def emitted_def removed_def split: option.splits)

lemma fold_matches:
  "foldl (\<lambda>st m. process_match m st) (calls, rest) ms =
     (calls @ concat (map emitted ms), foldl removed rest ms)"
  by (induction ms arbitrary: calls rest) (simp_all add: process_match_emitted)

lemma fold_patterns:
  "foldl (\<lambda>st p. foldl (\<lambda>st m. process_match m st) st (F p)) (calls, rest) ps =
     (calls @ concat (map emitted (concat (map F ps))), foldl removed rest (concat (map F ps)))"
  by (induction ps arbitrary: calls rest) (simp_all add: fold_matches)

lemma ParseToolCalls_eq:
  "ParseToolCalls output =
     (concat (map emitted (all_matches output)),
      TrimSpace (foldl removed output (all_matches output)))"
  by (simp add: ParseToolCalls_def all_matches_def fold_patterns)

lemma emitted_eq:
  "emitted m =
     (if length m < 2 then []
      else case Unmarshal (m ! 1) of
             None \<Rightarrow> []
           | Some rawCall \<Rightarrow>
               if toolName_of rawCall = [] then []
               else [\<lparr>Name = toolName_of rawCall, Input = input_of rawCall\<rparr>])"
  by (simp add: emitted_def process_match_def split: option.splits)

lemma emitted_name: "c \<in> set (emitted m) \<Longrightarrow> Name c \<noteq> []"
  by (auto simp: emitted_eq split: if_splits option.splits)

lemma toolName_of_empty:
  assumes "\<forall>n. rawCall ''tool'' = Some (JString n) \<longrightarrow> n = []"
    and "\<forall>n. rawCall ''name'' = Some (JString n) \<longrightarrow> n = []"
  shows "toolName_of rawCall = []"
  using assms by (auto simp: toolName_of_def split: option.splits jv.splits)


section \<open>Properties of the search\<close>

lemma keep_eq: "keep g x m = (x # fst m, if g then x # snd m else snd m)"
  by (cases m) simp

lemma backtrack_prefix: "backtrack r g s = Some (w, c) \<Longrightarrow> prefix w s"
  by (induction r g s arbitrary: w c rule: backtrack.induct)
     (auto simp: keep_eq split: if_splits option.splits)





lemma FindAll_Nil: "FindAllStringSubmatch r s = [] \<longleftrightarrow> \<not> MatchString r s"
proof (induction s)
  case Nil
  then show ?case by (simp add: FindAllStringSubmatch.simps [of r "[]"] split: option.splits)
next
  case (Cons x xs)
  then show ?case
    by (simp add: FindAllStringSubmatch.simps [of r "x # xs"] split: option.splits)
qed


lemma FindAll_match:
  "m \<in> set (FindAllStringSubmatch r s) \<Longrightarrow>
     \<exists>pre rest w c. s = pre @ rest \<and> backtrack r False rest = Some (w, c) \<and> m = [w, c]"
proof (induction r s rule: FindAllStringSubmatch.induct)
  case (1 r s)
  show ?case
  proof (cases "backtrack r False s")
    case None
    show ?thesis
    proof (cases s)
      case Nil
      with None "1.prems" show ?thesis by (simp add: FindAllStringSubmatch.simps [of r "[]"])
    next
      case (Cons x xs)
      with None "1.prems" have "m \<in> set (FindAllStringSubmatch r xs)"
        by (simp add: FindAllStringSubmatch.simps [of r "x # xs"])
      from "1.IH"(1) [OF None Cons this] obtain pre rest w c where
        "xs = pre @ rest" "backtrack r False rest = Some (w, c)" "m = [w, c]" by blast
      then have "s = (x # pre) @ rest \<and> backtrack r False rest = Some (w, c) \<and> m = [w, c]"
        using Cons by simp
      then show ?thesis by blast
    qed
  next
    case (Some wc)
    obtain w c where wc: "wc = (w, c)" by (cases wc)
    from "1.prems" Some wc consider "m = [w, c]"
      | "length (drop (length w) s) < length s" "m \<in> set (FindAllStringSubmatch r (drop (length w) s))"
      by (auto simp: FindAllStringSubmatch.simps [of r s] split: if_splits)
    then show ?thesis
    proof cases
      case 1
      with Some wc have "s = [] @ s \<and> backtrack r False s = Some (w, c) \<and> m = [w, c]"
        by simp
      then show ?thesis by blast
    next
      case 2
      from "1.IH"(2) [OF Some wc [symmetric] 2] obtain pre rest w' c' where
        h: "drop (length w) s = pre @ rest" "backtrack r False rest = Some (w', c')" "m = [w', c']"
        by blast
      have "s = (take (length w) s @ pre) @ rest"
        using h(1) by (metis append.assoc append_take_drop_id)
      with h show ?thesis by blast
    qed
  qed
qed








lemma spans_in_order_Cons: "spans_in_order ws s \<Longrightarrow> spans_in_order ws (u @ s)"
proof (cases ws)
  case Nil
  then show ?thesis by simp
next
  case (Cons w ws')
  assume "spans_in_order ws s"
  with Cons obtain pre rest where "s = pre @ w @ rest" "spans_in_order ws' rest" by auto
  then have "u @ s = (u @ pre) @ w @ rest \<and> spans_in_order ws' rest" by simp
  with Cons show ?thesis by (simp del: append_assoc) blast
qed

lemma FindAll_in_order:
  "spans_in_order (map (\<lambda>m. m ! 0) (FindAllStringSubmatch r s)) s"
proof (induction r s rule: FindAllStringSubmatch.induct)
  case (1 r s)
  show ?case
  proof (cases "backtrack r False s")
    case None
    show ?thesis
    proof (cases s)
      case Nil
      with None show ?thesis by (simp add: FindAllStringSubmatch.simps [of r "[]"])
    next
      case (Cons x xs)
      from "1.IH"(1) [OF None Cons] spans_in_order_Cons [of _ xs "[x]"]
      have "spans_in_order (map (\<lambda>m. m ! 0) (FindAllStringSubmatch r xs)) (x # xs)" by simp
      with None Cons show ?thesis by (simp add: FindAllStringSubmatch.simps [of r "x # xs"])
    qed
  next
    case (Some wc)
    obtain w c where wc: "wc = (w, c)" by (cases wc)
    from Some wc have "prefix w s" by (simp add: backtrack_prefix)
    then have s: "s = [] @ w @ drop (length w) s" by (auto simp: prefix_def)
    show ?thesis
    proof (cases "length (drop (length w) s) < length s")
      case True
      from "1.IH"(2) [OF Some wc [symmetric] True] s
      have "\<exists>pre rest. s = pre @ w @ rest \<and>
              spans_in_order (map (\<lambda>m. m ! 0) (FindAllStringSubmatch r (drop (length w) s))) rest"
        by blast
      with Some wc True show ?thesis by (simp add: FindAllStringSubmatch.simps [of r s])
    next
      case False
      have "\<exists>pre rest. s = pre @ w @ rest" using s by blast
      with Some wc False show ?thesis by (simp add: FindAllStringSubmatch.simps [of r s])
    qed
  qed
qed

lemma list_split_two:
  "i < j \<Longrightarrow> j < length xs \<Longrightarrow>
     xs = take i xs @ xs ! i # take (j - Suc i) (drop (Suc i) xs) @ xs ! j # drop (Suc j) xs"
proof -
  assume ij: "i < j" "j < length xs"
  then have 1: "xs = take i xs @ xs ! i # drop (Suc i) xs"
    by (simp add: id_take_nth_drop)
  let ?ys = "drop (Suc i) xs"
  from ij have "j - Suc i < length ?ys" by simp
  then have "?ys = take (j - Suc i) ?ys @ ?ys ! (j - Suc i) # drop (Suc (j - Suc i)) ?ys"
    by (rule id_take_nth_drop)
  moreover from ij have "?ys ! (j - Suc i) = xs ! j" by simp
  moreover from ij have "drop (Suc (j - Suc i)) ?ys = drop (Suc j) xs" by simp
  ultimately have "?ys = take (j - Suc i) ?ys @ xs ! j # drop (Suc j) xs" by simp
  with 1 show ?thesis by metis
qed

lemma concat_map_concat:
  "concat (map g (concat (map F ps))) = concat (map (\<lambda>p. concat (map g (F p))) ps)"
  by (induction ps) simp_all

lemma concat_two_parts:
  "ps = as @ a # bs @ b # cs \<Longrightarrow> f a = u @ c # v \<Longrightarrow> f b = u' @ c # v' \<Longrightarrow>
     concat (map f ps) =
       (concat (map f as) @ u) @ c # (v @ concat (map f bs) @ u') @ c # (v' @ concat (map f cs))"
  by simp

lemma concat_twice:
  assumes "i < j" and "j < length ps" and "c \<in> set (f (ps ! i))" and "c \<in> set (f (ps ! j))"
  shows "\<exists>xs ys zs. concat (map f ps) = xs @ c # ys @ c # zs"
proof -
  from assms(3) obtain u v where u: "f (ps ! i) = u @ c # v" by (auto dest: split_list)
  from assms(4) obtain u' v' where v: "f (ps ! j) = u' @ c # v'" by (auto dest: split_list)
  note s = list_split_two [OF assms(1,2)]
  from concat_two_parts [OF s u v] show ?thesis by blast
qed

text \<open>
  No pattern of the source matches the empty text, so after a match the search of
  \<open>FindAllStringSubmatch\<close> always resumes at the end of the match.
\<close>

lemma Single_match_nonempty: "backtrack (Single k # r) g s = Some (w, c) \<Longrightarrow> w \<noteq> []"
  by (cases s) (auto simp: keep_eq split: if_splits)

lemma pattern_match_nonempty:
  assumes "pattern \<in> set toolCallPatterns" and "backtrack pattern g s = Some (w, c)"
  shows "w \<noteq> []"
proof -
  from assms(1) have "(\<exists>k r. pattern = Single k # r) \<or> (\<exists>k r. pattern = GroupOpen # Single k # r)"
    by (auto simp: toolCallPatterns_def lits_def)
  with assms(2) show ?thesis by (auto dest: Single_match_nonempty)
qed

lemma FindAll_resumes:
  assumes "pattern \<in> set toolCallPatterns" and "backtrack pattern False s = Some (w, c)"
  shows "FindAllStringSubmatch pattern s =
           [w, c] # FindAllStringSubmatch pattern (drop (length w) s)"
proof -
  from assms have "w \<noteq> []" by (rule pattern_match_nonempty)
  moreover from assms(2) have "prefix w s" by (rule backtrack_prefix)
  ultimately have "length (drop (length w) s) < length s"
    by (cases s) (auto simp: prefix_def)
  with assms(2) show ?thesis by (simp add: FindAllStringSubmatch.simps [of pattern s])
qed








lemma matches_any_iff: "matches_any ps s \<longleftrightarrow> (\<exists>p \<in> set ps. MatchString p s)"
  by (induction ps) auto

lemma IsToolCallResponse_iff:
  "IsToolCallResponse s \<longleftrightarrow> (\<exists>p \<in> set toolCallPatterns. FindAllStringSubmatch p s \<noteq> [])"
  by (simp add: IsToolCallResponse_def matches_any_iff FindAll_Nil)





lemma lits_Cons: "lits (a # L) = Single (Lit a) # lits L"
  by (simp add: lits_def)

lemma lits_Nil: "lits [] = []"
  by (simp add: lits_def)

lemma group_after_lits [simp]: "group_after (lits L @ r) g = group_after r g"
  by (induction L) (simp_all add: lits_Cons lits_Nil)

lemma group_after_lits_only [simp]: "group_after (lits L) g = g"
  using group_after_lits [of L "[]" g] by simp






















section \<open>Evaluation at the example texts\<close>

lemmas json_eval = Unmarshal_def skip_ws_def is_ws_def number_def int_part_def frac_part_def
  exp_part_def digits_def is_digit_def byte_def decimal_def float64_overflow_def push_def
  unescape_def utf8_width_def between_def cont_def getu4_def hexval_def EncodeRune_def chr_def
  replacement_def elements.simps

lemma patterns_length: "length toolCallPatterns = 4"
  by (simp add: toolCallPatterns_def)

lemma pattern_mem: "i < 4 \<Longrightarrow> toolCallPatterns ! i \<in> set toolCallPatterns"
  by (simp add: patterns_length)

lemma nth_matches:
  "map (\<lambda>p. FindAllStringSubmatch p s) toolCallPatterns = ms \<Longrightarrow> i < 4 \<Longrightarrow>
     FindAllStringSubmatch (toolCallPatterns ! i) s = ms ! i"
  using nth_map [of i toolCallPatterns "\<lambda>p. FindAllStringSubmatch p s"]
  by (simp add: patterns_length)

lemma all_matches_eq:
  "map (\<lambda>p. FindAllStringSubmatch p s) toolCallPatterns = ms \<Longrightarrow> all_matches s = concat ms"
  by (simp add: all_matches_def)

lemma in_all_matches:
  "m \<in> set (all_matches s) \<longleftrightarrow>
     (\<exists>p \<in> set toolCallPatterns. m \<in> set (FindAllStringSubmatch p s))"
  by (auto simp: all_matches_def)


lemma matches_name_only:
  "map (\<lambda>p. FindAllStringSubmatch p ex_name_only) toolCallPatterns =
     [[[ex_name_only, ''{\"name\":\"x\",\"a\":\"1\"}'']], [], [], []]"
  unfolding ex_name_only_def by code_simp

lemma decode_name_only:
  "Unmarshal ''{\"name\":\"x\",\"a\":\"1\"}'' = Some [''name'' \<mapsto> JString ''x'', ''a'' \<mapsto> JString ''1'']"
  by (simp add: json_eval)

lemma trim_name_only: "TrimSpace (Replace ex_name_only ex_name_only) = []"
  unfolding ex_name_only_def by code_simp

lemma parse_name_only:
  "ParseToolCalls ex_name_only =
     ([\<lparr>Name = ''x'', Input = input_of [''name'' \<mapsto> JString ''x'', ''a'' \<mapsto> JString ''1'']\<rparr>], [])"
  by (simp add: ParseToolCalls_eq all_matches_eq [OF matches_name_only] emitted_eq removed_def
      decode_name_only toolName_of_def trim_name_only)


lemma matches_empty_tool:
  "map (\<lambda>p. FindAllStringSubmatch p ex_empty_tool) toolCallPatterns =
     [[[ex_empty_tool, ''{\"tool\":\"\",\"name\":\"x\"}'']], [], [], []]"
  unfolding ex_empty_tool_def by code_simp

lemma decode_empty_tool:
  "Unmarshal ''{\"tool\":\"\",\"name\":\"x\"}'' = Some [''tool'' \<mapsto> JString [], ''name'' \<mapsto> JString ''x'']"
  by (simp add: json_eval)

lemma trim_empty_tool: "TrimSpace ex_empty_tool = ex_empty_tool"
  unfolding ex_empty_tool_def by code_simp

lemma parse_empty_tool: "ParseToolCalls ex_empty_tool = ([], ex_empty_tool)"
  by (simp add: ParseToolCalls_eq all_matches_eq [OF matches_empty_tool] emitted_eq removed_def
      decode_empty_tool toolName_of_def trim_empty_tool)





lemma matches_input_nested:
  "map (\<lambda>p. FindAllStringSubmatch p ex_input_nested) toolCallPatterns =
     [[[ex_input_nested, ''{\"tool\":\"a\",\"input\":{\"x\":\"1\"},\"y\":\"2\"}'']], [], [],
      [[''{\"tool\":\"a\",\"input\":{\"x\":\"1\"}'', ''{\"tool\":\"a\",\"input\":{\"x\":\"1\"}'']]]"
  unfolding ex_input_nested_def by code_simp

lemma decode_input_nested:
  "Unmarshal ''{\"tool\":\"a\",\"input\":{\"x\":\"1\"},\"y\":\"2\"}'' =
     Some [''tool'' \<mapsto> JString ''a'', ''input'' \<mapsto> JObject [''x'' \<mapsto> JString ''1''], ''y'' \<mapsto> JString ''2'']"
  by (simp add: json_eval)


lemma matches_twice:
  "map (\<lambda>p. FindAllStringSubmatch p ex_twice) toolCallPatterns =
     [[[ex_twice, ''{\"tool\":\"a\",\"x\":\"1\"}'']], [], [],
      [[''{\"tool\":\"a\",\"x\":\"1\"}'', ''{\"tool\":\"a\",\"x\":\"1\"}'']]]"
  unfolding ex_twice_def by code_simp

lemma decode_twice:
  "Unmarshal ''{\"tool\":\"a\",\"x\":\"1\"}'' = Some [''tool'' \<mapsto> JString ''a'', ''x'' \<mapsto> JString ''1'']"
  by (simp add: json_eval)


lemma matches_malformed:
  "map (\<lambda>p. FindAllStringSubmatch p ex_malformed) toolCallPatterns =
     [[[ex_malformed, ''{oops}'']], [], [], []]"
  unfolding ex_malformed_def by code_simp

lemma decode_malformed: "Unmarshal ''{oops}'' = None"
  by (simp add: json_eval)

lemma trim_malformed: "TrimSpace ex_malformed = ex_malformed"
  unfolding ex_malformed_def by code_simp

lemma matches_plain:
  "map (\<lambda>p. FindAllStringSubmatch p ex_plain) toolCallPatterns = [[], [], [], []]"
  unfolding ex_plain_def by code_simp

lemma trim_plain: "TrimSpace ex_plain = ''no call here''"
  unfolding ex_plain_def by code_simp

lemma decode_no_name: "Unmarshal ''{\"a\":\"1\"}'' = Some [''a'' \<mapsto> JString ''1'']"
  by (simp add: json_eval)

lemma trim_twice: "TrimSpace (Replace (Replace ex_twice ex_twice) ''{\"tool\":\"a\",\"x\":\"1\"}'') = []"
  unfolding ex_twice_def by code_simp

lemma parse_twice:
  "ParseToolCalls ex_twice =
     ([\<lparr>Name = ''a'', Input = input_of [''tool'' \<mapsto> JString ''a'', ''x'' \<mapsto> JString ''1'']\<rparr>,
       \<lparr>Name = ''a'', Input = input_of [''tool'' \<mapsto> JString ''a'', ''x'' \<mapsto> JString ''1'']\<rparr>], [])"
  by (simp add: ParseToolCalls_eq all_matches_eq [OF matches_twice] emitted_eq removed_def
      decode_twice toolName_of_def trim_twice)



text \<open>
  Two scenarios of the specification, evaluated on the model: the bare inline record
  gives one call and an empty residual text; the tagged block with a record of several
  keys is also matched by the inline pattern, and its call stands twice in the list.
\<close>

lemma scenario_inline:
  "map Name (fst (ParseToolCalls ex_scenario_inline)) = [''bash''] \<and>
   snd (ParseToolCalls ex_scenario_inline) = []"
  unfolding ex_scenario_inline_def by code_simp

lemma scenario_tagged:
  "map Name (fst (ParseToolCalls ex_scenario_tagged)) = [''write_file'', ''write_file''] \<and>
   snd (ParseToolCalls ex_scenario_tagged) = ''Sure, doing that now.''"
  unfolding ex_scenario_tagged_def by code_simp

section \<open>The claims\<close>

lemma emitted_in_calls:
  assumes "pattern \<in> set toolCallPatterns"
    and "match \<in> set (FindAllStringSubmatch pattern output)"
    and "c \<in> set (emitted match)"
  shows "c \<in> set (fst (ParseToolCalls output))"
  using assms in_all_matches [of match "output"] by (auto simp: ParseToolCalls_eq)

lemma FindAll_length:
  "m \<in> set (FindAllStringSubmatch r s) \<Longrightarrow> length m = 2"
  by (auto dest: FindAll_match)

lemma emitted_decoded:
  assumes "length match = 2" and "Unmarshal (match ! 1) = Some rawCall"
  shows "emitted match =
           (if toolName_of rawCall = [] then []
            else [\<lparr>Name = toolName_of rawCall, Input = input_of rawCall\<rparr>])"
  using assms by (simp add: emitted_eq)

lemma input_of_object: "rawCall ''input'' = Some (JObject inp) \<Longrightarrow> input_of rawCall = inp"
  by (simp add: input_of_def)

lemma input_of_other:
  "\<forall>inp. rawCall ''input'' \<noteq> Some (JObject inp) \<Longrightarrow>
     input_of rawCall = rawCall |` (- {''tool'', ''name'', ''type''})"
  by (auto simp: input_of_def restrict_map_def split: option.splits jv.splits)

text \<open>
  Claim C1, as amended.  For every match of an envelope pattern whose inner substring
  decodes to a record, the name is derived from \<open>"tool"\<close> first and from \<open>"name"\<close> when
  \<open>"tool"\<close> is absent or not a string: when the value under \<open>"tool"\<close> is a non-empty
  string, one call is emitted and its name is that string; when the value under
  \<open>"tool"\<close> is absent or not a string and the value under \<open>"name"\<close> is a non-empty
  string, one call is emitted and its name is the value under \<open>"name"\<close>.
\<close>

theorem name_derivation:
  assumes "pattern \<in> set toolCallPatterns"
    and "match \<in> set (FindAllStringSubmatch pattern output)"
    and "Unmarshal (match ! 1) = Some rawCall"
  shows "(\<forall>n. rawCall ''tool'' = Some (JString n) \<and> n \<noteq> [] \<longrightarrow>
            (\<exists>c. emitted match = [c] \<and> Name c = n \<and> c \<in> set (fst (ParseToolCalls output)))) \<and>
         (\<forall>n. (\<forall>s. rawCall ''tool'' \<noteq> Some (JString s)) \<and>
              rawCall ''name'' = Some (JString n) \<and> n \<noteq> [] \<longrightarrow>
            (\<exists>c. emitted match = [c] \<and> Name c = n \<and> c \<in> set (fst (ParseToolCalls output))))"
proof -
  have len: "length match = 2" using assms(2) by (rule FindAll_length)
  note em = emitted_decoded [OF len assms(3)]
  have mem: "\<And>c. emitted match = [c] \<Longrightarrow> c \<in> set (fst (ParseToolCalls output))"
    using emitted_in_calls [OF assms(1,2)] by simp
  show ?thesis
  proof (intro conjI allI impI)
    fix n assume "rawCall ''tool'' = Some (JString n) \<and> n \<noteq> []"
    then have "toolName_of rawCall = n" "n \<noteq> []" by (simp_all add: toolName_of_def)
    with em mem show "\<exists>c. emitted match = [c] \<and> Name c = n \<and> c \<in> set (fst (ParseToolCalls output))"
      by simp
  next
    fix n assume h: "(\<forall>s. rawCall ''tool'' \<noteq> Some (JString s)) \<and>
              rawCall ''name'' = Some (JString n) \<and> n \<noteq> []"
    then have "toolName_of rawCall = n"
      by (auto simp: toolName_of_def split: option.splits jv.splits)
    with h em mem show "\<exists>c. emitted match = [c] \<and> Name c = n \<and> c \<in> set (fst (ParseToolCalls output))"
      by simp
  qed
qed

theorem name_derivation_witness:
  "(\<exists>c. emitted [ex_twice, ''{\"tool\":\"a\",\"x\":\"1\"}''] = [c] \<and> Name c = ''a'' \<and>
       c \<in> set (fst (ParseToolCalls ex_twice))) \<and>
   (\<exists>c. emitted [ex_name_only, ''{\"name\":\"x\",\"a\":\"1\"}''] = [c] \<and> Name c = ''x'' \<and>
       c \<in> set (fst (ParseToolCalls ex_name_only)))"
proof -
  have p: "toolCallPatterns ! 0 \<in> set toolCallPatterns" by (simp add: pattern_mem)
  let ?m1 = "[ex_twice, ''{\"tool\":\"a\",\"x\":\"1\"}'']"
  let ?r1 = "[''tool'' \<mapsto> JString ''a'', ''x'' \<mapsto> JString ''1'']"
  have a1: "?m1 \<in> set (FindAllStringSubmatch (toolCallPatterns ! 0) ex_twice)"
    by (simp add: nth_matches [OF matches_twice])
  have a2: "Unmarshal (?m1 ! 1) = Some ?r1" by (simp add: decode_twice)
  have a3: "?r1 ''tool'' = Some (JString ''a'') \<and> ''a'' \<noteq> []" by simp
  let ?m2 = "[ex_name_only, ''{\"name\":\"x\",\"a\":\"1\"}'']"
  let ?r2 = "[''name'' \<mapsto> JString ''x'', ''a'' \<mapsto> JString ''1'']"
  have b1: "?m2 \<in> set (FindAllStringSubmatch (toolCallPatterns ! 0) ex_name_only)"
    by (simp add: nth_matches [OF matches_name_only])
  have b2: "Unmarshal (?m2 ! 1) = Some ?r2" by (simp add: decode_name_only)
  have b3: "(\<forall>s. ?r2 ''tool'' \<noteq> Some (JString s)) \<and> ?r2 ''name'' = Some (JString ''x'') \<and>
      ''x'' \<noteq> []"
    by simp
  from name_derivation [OF p a1 a2, THEN conjunct1, rule_format, OF a3]
    name_derivation [OF p b1 b2, THEN conjunct2, rule_format, OF b3]
  show ?thesis by (intro conjI)
qed

text \<open>
  The claim as stated fails for a record whose \<open>"tool"\<close> is the empty string and whose
  \<open>"name"\<close> is \<open>"x"\<close>: the type assertion on \<open>"tool"\<close> succeeds, the \<open>else\<close> branch is
  not taken, and the record is discarded.
\<close>

theorem name_derivation_counterexample:
  "FindAllStringSubmatch (toolCallPatterns ! 0) ex_empty_tool =
     [[ex_empty_tool, ''{\"tool\":\"\",\"name\":\"x\"}'']] \<and>
   Unmarshal ''{\"tool\":\"\",\"name\":\"x\"}'' =
     Some [''tool'' \<mapsto> JString [], ''name'' \<mapsto> JString ''x''] \<and>
   fst (ParseToolCalls ex_empty_tool) = []"
  by (simp add: nth_matches [OF matches_empty_tool] decode_empty_tool parse_empty_tool)




text \<open>
  Claim C3.  The returned list of calls is the concatenation, in the order of
  \<open>toolCallPatterns\<close>, of the calls emitted for the matches of each pattern, and every
  pattern is matched against the whole original text, its matches taken in the order in
  which they occur there.  So every call of an earlier pattern stands before every call
  of a later pattern; and when a match of one pattern and a match of a later pattern
  have the same inner substring, the call emitted for it stands twice in the list.
\<close>

theorem call_order:
  "fst (ParseToolCalls output) =
     concat (map (\<lambda>pattern. concat (map emitted (FindAllStringSubmatch pattern output)))
       toolCallPatterns) \<and>
   (\<forall>pattern \<in> set toolCallPatterns.
      spans_in_order (map (\<lambda>match. match ! 0) (FindAllStringSubmatch pattern output)) output) \<and>
   (\<forall>i j m m' c.
      i < j \<and> j < length toolCallPatterns \<and>
      m \<in> set (FindAllStringSubmatch (toolCallPatterns ! i) output) \<and>
      m' \<in> set (FindAllStringSubmatch (toolCallPatterns ! j) output) \<and>
      m ! 1 = m' ! 1 \<and> emitted m = [c] \<longrightarrow>
      (\<exists>xs ys zs. fst (ParseToolCalls output) = xs @ c # ys @ c # zs))"
proof (intro conjI allI impI ballI)
  let ?f = "\<lambda>pattern. concat (map emitted (FindAllStringSubmatch pattern output))"
  show eq: "fst (ParseToolCalls output) = concat (map ?f toolCallPatterns)"
    by (simp add: ParseToolCalls_eq all_matches_def concat_map_concat)
  fix i j m m' c
  assume h: "i < j \<and> j < length toolCallPatterns \<and>
      m \<in> set (FindAllStringSubmatch (toolCallPatterns ! i) output) \<and>
      m' \<in> set (FindAllStringSubmatch (toolCallPatterns ! j) output) \<and>
      m ! 1 = m' ! 1 \<and> emitted m = [c]"
  then have "length m = 2" "length m' = 2" "m' ! 1 = m ! 1" by (auto dest: FindAll_length)
  then have "emitted m' = emitted m" by (simp add: emitted_eq)
  with h have ci: "c \<in> set (?f (toolCallPatterns ! i))" and cj: "c \<in> set (?f (toolCallPatterns ! j))"
    by force+
  from h have ij: "i < j" "j < length toolCallPatterns" by simp_all
  from concat_twice [of i j toolCallPatterns c ?f, OF ij ci cj] eq
  show "\<exists>xs ys zs. fst (ParseToolCalls output) = xs @ c # ys @ c # zs" by simp
next
  fix pattern assume "pattern \<in> set toolCallPatterns"
  show "spans_in_order (map (\<lambda>match. match ! 0) (FindAllStringSubmatch pattern output)) output"
    by (rule FindAll_in_order)
qed

theorem call_order_witness:
  "(\<exists>c xs ys zs. emitted [ex_twice, ''{\"tool\":\"a\",\"x\":\"1\"}''] = [c] \<and>
      fst (ParseToolCalls ex_twice) = xs @ c # ys @ c # zs) \<and>
   spans_in_order [ex_twice] ex_twice \<and>
   map Name (fst (ParseToolCalls ex_twice)) = [''a'', ''a'']"
proof -
  let ?b = "''{\"tool\":\"a\",\"x\":\"1\"}''"
  obtain c where c: "emitted [ex_twice, ?b] = [c]"
    by (simp add: emitted_eq decode_twice toolName_of_def)
  have h: "(0::nat) < 3 \<and> 3 < length toolCallPatterns \<and>
      [ex_twice, ?b] \<in> set (FindAllStringSubmatch (toolCallPatterns ! 0) ex_twice) \<and>
      [?b, ?b] \<in> set (FindAllStringSubmatch (toolCallPatterns ! 3) ex_twice) \<and>
      [ex_twice, ?b] ! 1 = [?b, ?b] ! 1 \<and> emitted [ex_twice, ?b] = [c]"
    using c by (simp add: nth_matches [OF matches_twice] patterns_length)
  have p: "toolCallPatterns ! 0 \<in> set toolCallPatterns" by (simp add: pattern_mem)
  note co = call_order [of ex_twice]
  from co [THEN conjunct2, THEN conjunct2, rule_format, OF h] c
  have 1: "\<exists>c xs ys zs. emitted [ex_twice, ?b] = [c] \<and>
      fst (ParseToolCalls ex_twice) = xs @ c # ys @ c # zs"
    by blast
  from co [THEN conjunct2, THEN conjunct1, rule_format, OF p]
  have 2: "spans_in_order [ex_twice] ex_twice"
    by (simp add: nth_matches [OF matches_twice])
  have 3: "map Name (fst (ParseToolCalls ex_twice)) = [''a'', ''a'']"
    by (simp add: parse_twice)
  from 1 2 3 show ?thesis by (intro conjI)
qed

text \<open>
  Claim C4.  For every match of an envelope pattern whose inner substring decodes to a
  record and for which a call \<open>c\<close> is emitted: \<open>c\<close> is in the returned list; if the record
  holds an object under \<open>"input"\<close>, the input of \<open>c\<close> is exactly that object; otherwise the
  input of \<open>c\<close> is the record restricted to the keys other than \<open>"tool"\<close>, \<open>"name"\<close> and
  \<open>"type"\<close>, every value unchanged.
\<close>

theorem input_mapping:
  assumes "pattern \<in> set toolCallPatterns"
    and "match \<in> set (FindAllStringSubmatch pattern output)"
    and "Unmarshal (match ! 1) = Some rawCall"
    and "emitted match = [c]"
  shows "c \<in> set (fst (ParseToolCalls output)) \<and>
         (\<forall>inp. rawCall ''input'' = Some (JObject inp) \<longrightarrow> Input c = inp) \<and>
         ((\<forall>inp. rawCall ''input'' \<noteq> Some (JObject inp)) \<longrightarrow>
            Input c = rawCall |` (- {''tool'', ''name'', ''type''}))"
proof -
  have len: "length match = 2" using assms(2) by (rule FindAll_length)
  from emitted_decoded [OF len assms(3)] assms(4)
  have c: "c = \<lparr>Name = toolName_of rawCall, Input = input_of rawCall\<rparr>"
    by (simp split: if_splits)
  have "c \<in> set (fst (ParseToolCalls output))"
    using emitted_in_calls [OF assms(1,2)] assms(4) by simp
  with c show ?thesis by (simp add: input_of_object input_of_other)
qed

theorem input_mapping_witness:
  "(\<exists>c. emitted [ex_input_nested, ''{\"tool\":\"a\",\"input\":{\"x\":\"1\"},\"y\":\"2\"}''] = [c] \<and>
        c \<in> set (fst (ParseToolCalls ex_input_nested)) \<and> Input c = [''x'' \<mapsto> JString ''1'']) \<and>
   (\<exists>c. emitted [ex_twice, ''{\"tool\":\"a\",\"x\":\"1\"}''] = [c] \<and>
        c \<in> set (fst (ParseToolCalls ex_twice)) \<and>
        Input c = [''tool'' \<mapsto> JString ''a'', ''x'' \<mapsto> JString ''1''] |` (- {''tool'', ''name'', ''type''}))"
proof -
  let ?m = "[ex_input_nested, ''{\"tool\":\"a\",\"input\":{\"x\":\"1\"},\"y\":\"2\"}'']"
  let ?raw = "[''tool'' \<mapsto> JString ''a'', ''input'' \<mapsto> JObject [''x'' \<mapsto> JString ''1''],
               ''y'' \<mapsto> JString ''2'']"
  let ?m' = "[ex_twice, ''{\"tool\":\"a\",\"x\":\"1\"}'']"
  let ?raw' = "[''tool'' \<mapsto> JString ''a'', ''x'' \<mapsto> JString ''1'']"
  have 1: "toolCallPatterns ! 0 \<in> set toolCallPatterns" by (simp add: pattern_mem)
  have 2: "?m \<in> set (FindAllStringSubmatch (toolCallPatterns ! 0) ex_input_nested)"
    by (simp add: nth_matches [OF matches_input_nested])
  have 3: "Unmarshal (?m ! 1) = Some ?raw" by (simp add: decode_input_nested)
  obtain c where 4: "emitted ?m = [c]"
    by (simp add: emitted_eq decode_input_nested toolName_of_def)
  have 5: "?raw ''input'' = Some (JObject [''x'' \<mapsto> JString ''1''])" by simp
  have t2: "?m' \<in> set (FindAllStringSubmatch (toolCallPatterns ! 0) ex_twice)"
    by (simp add: nth_matches [OF matches_twice])
  have t3: "Unmarshal (?m' ! 1) = Some ?raw'" by (simp add: decode_twice)
  obtain c' where t4: "emitted ?m' = [c']"
    by (simp add: emitted_eq decode_twice toolName_of_def)
  have t5: "\<forall>inp. ?raw' ''input'' \<noteq> Some (JObject inp)" by simp
  from input_mapping [OF 1 2 3 4] 5 4 input_mapping [OF 1 t2 t3 t4] t5 t4 show ?thesis
    by blast
qed

text \<open>
  Claim C5.  \<open>ParseToolCalls\<close> returns a result for every text (it is a total function:
  the search, the decoder and the trimming terminate on every input).  A match whose
  inner substring does not decode is skipped by the loop body: no call is added and the
  remaining text is not changed.  When no match of any pattern decodes, and in
  particular when no pattern matches, the result is the empty list of calls and the
  trimmed text.
\<close>

theorem total_and_silent:
  "(\<exists>calls residual. ParseToolCalls output = (calls, residual)) \<and>
   (\<forall>match st. Unmarshal (match ! 1) = None \<longrightarrow> process_match match st = st) \<and>
   ((\<forall>pattern \<in> set toolCallPatterns.
       \<forall>match \<in> set (FindAllStringSubmatch pattern output). Unmarshal (match ! 1) = None) \<longrightarrow>
      ParseToolCalls output = ([], TrimSpace output)) \<and>
   ((\<forall>pattern \<in> set toolCallPatterns. FindAllStringSubmatch pattern output = []) \<longrightarrow>
      ParseToolCalls output = ([], TrimSpace output))"
proof (intro conjI allI impI)
  show "\<exists>calls residual. ParseToolCalls output = (calls, residual)"
    by (cases "ParseToolCalls output") simp
next
  fix match and st :: "ParsedToolCall list \<times> string"
  assume "Unmarshal (match ! 1) = None"
  then show "process_match match st = st"
    by (cases st) (simp add: process_match_def)
next
  assume h: "\<forall>pattern \<in> set toolCallPatterns.
       \<forall>match \<in> set (FindAllStringSubmatch pattern output). Unmarshal (match ! 1) = None"
  have e: "emitted m = []" if "m \<in> set (all_matches output)" for m
    using that h by (auto simp: in_all_matches emitted_eq)
  then have "concat (map emitted (all_matches output)) = []" by simp
  moreover have "foldl removed s ms = s" if "\<forall>m \<in> set ms. emitted m = []" for s ms
    using that by (induction ms arbitrary: s) (simp_all add: removed_def)
  ultimately show "ParseToolCalls output = ([], TrimSpace output)"
    using e by (simp add: ParseToolCalls_eq)
next
  assume "\<forall>pattern \<in> set toolCallPatterns. FindAllStringSubmatch pattern output = []"
  then have "all_matches output = []" by (simp add: all_matches_def)
  then show "ParseToolCalls output = ([], TrimSpace output)"
    by (simp add: ParseToolCalls_eq)
qed

theorem total_and_silent_witness:
  "process_match [ex_malformed, ''{oops}''] ([], ex_malformed) = ([], ex_malformed) \<and>
   ParseToolCalls ex_malformed = ([], ex_malformed) \<and>
   ParseToolCalls ex_plain = ([], ''no call here'')"
proof -
  have 1: "Unmarshal ([ex_malformed, ''{oops}''] ! 1) = None"
    by (simp add: decode_malformed)
  have "\<forall>ms \<in> set (map (\<lambda>p. FindAllStringSubmatch p ex_malformed) toolCallPatterns).
          \<forall>match \<in> set ms. Unmarshal (match ! 1) = None"
    unfolding matches_malformed by (simp add: decode_malformed)
  then have 2: "\<forall>pattern \<in> set toolCallPatterns.
       \<forall>match \<in> set (FindAllStringSubmatch pattern ex_malformed). Unmarshal (match ! 1) = None"
    by simp
  have "\<forall>ms \<in> set (map (\<lambda>p. FindAllStringSubmatch p ex_plain) toolCallPatterns). ms = []"
    unfolding matches_plain by simp
  then have 3: "\<forall>pattern \<in> set toolCallPatterns. FindAllStringSubmatch pattern ex_plain = []"
    by simp
  from total_and_silent [of ex_malformed] 1 2 total_and_silent [of ex_plain] 3 show ?thesis
    by (simp add: trim_malformed trim_plain)
qed



text \<open>
  The hypothesis of well-formedness cannot be weakened to "every matched body decodes":
  a body that decodes to a record without a name is detected and yields no call.
\<close>

lemma detection_without_name:
  "IsToolCallResponse ex_no_name \<and> Unmarshal ''{\"a\":\"1\"}'' \<noteq> None \<and>
   fst (ParseToolCalls ex_no_name) = []"
proof -
  have m: "map (\<lambda>p. FindAllStringSubmatch p ex_no_name) toolCallPatterns =
     [[[ex_no_name, ''{\"a\":\"1\"}'']], [], [], []]"
    unfolding ex_no_name_def by code_simp
  have "\<exists>ms \<in> set (map (\<lambda>p. FindAllStringSubmatch p ex_no_name) toolCallPatterns). ms \<noteq> []"
    unfolding m by simp
  then have "IsToolCallResponse ex_no_name" by (simp add: IsToolCallResponse_iff)
  moreover have "fst (ParseToolCalls ex_no_name) = []"
    by (simp add: ParseToolCalls_eq all_matches_eq [OF m] emitted_eq decode_no_name
        toolName_of_def)
  ultimately show ?thesis by (simp add: decode_no_name)
qed

text \<open>
  Claim C7.  Every call in the list returned by \<open>ParseToolCalls\<close> has a non-empty name;
  and a decoded record in which neither \<open>"tool"\<close> nor \<open>"name"\<close> holds a non-empty string
  is discarded by the loop body: the calls and the remaining text stay as they are.
\<close>

theorem names_nonempty:
  "(\<forall>c \<in> set (fst (ParseToolCalls output)). Name c \<noteq> []) \<and>
   (\<forall>match rawCall st.
      Unmarshal (match ! 1) = Some rawCall \<and>
      (\<forall>n. rawCall ''tool'' = Some (JString n) \<longrightarrow> n = []) \<and>
      (\<forall>n. rawCall ''name'' = Some (JString n) \<longrightarrow> n = []) \<longrightarrow>
      process_match match st = st)"
proof (intro conjI allI impI ballI)
  fix c assume "c \<in> set (fst (ParseToolCalls output))"
  then show "Name c \<noteq> []"
    by (auto simp: ParseToolCalls_eq dest: emitted_name)
next
  fix match rawCall and st :: "ParsedToolCall list \<times> string"
  assume h: "Unmarshal (match ! 1) = Some rawCall \<and>
      (\<forall>n. rawCall ''tool'' = Some (JString n) \<longrightarrow> n = []) \<and>
      (\<forall>n. rawCall ''name'' = Some (JString n) \<longrightarrow> n = [])"
  then have "toolName_of rawCall = []" by (intro toolName_of_empty) auto
  with h show "process_match match st = st"
    by (cases st) (simp add: process_match_def)
qed

theorem names_nonempty_witness:
  "Name (hd (fst (ParseToolCalls ex_name_only))) \<noteq> [] \<and>
   process_match [ex_no_name, ''{\"a\":\"1\"}''] ([], ex_no_name) = ([], ex_no_name)"
proof -
  have "hd (fst (ParseToolCalls ex_name_only)) \<in> set (fst (ParseToolCalls ex_name_only))"
    by (simp add: parse_name_only)
  moreover have "Unmarshal ([ex_no_name, ''{\"a\":\"1\"}''] ! 1) = Some [''a'' \<mapsto> JString ''1'']"
    by (simp add: decode_no_name)
  ultimately show ?thesis
    using names_nonempty [of ex_name_only] by fastforce
qed

lemma range_order_unique:
  assumes "range_order m xs" and "range_order m ys" and "dom m \<subseteq> {k}"
  shows "xs = ys"
proof -
  have single: "zs = (case m k of None \<Rightarrow> [] | Some v \<Rightarrow> [(k, v)])" if "range_order m zs" for zs
  proof -
    from that have d: "distinct (map fst zs)" and m: "map_of zs = m"
      by (simp_all add: range_order_def)
    have keys: "fst ` set zs \<subseteq> {k}"
      using assms(3) unfolding m [symmetric] dom_map_of_conv_image_fst .
    show ?thesis
    proof (cases zs)
      case Nil
      with m show ?thesis by auto
    next
      case (Cons z zs')
      with keys have z: "fst z = k" by auto
      have "zs' = []"
      proof (cases zs')
        case Nil
        then show ?thesis .
      next
        case (Cons z' zs'')
        with keys \<open>zs = z # zs'\<close> have "fst z' = k" by auto
        with z d \<open>zs = z # zs'\<close> Cons show ?thesis by simp
      qed
      with Cons z m show ?thesis by (cases z) auto
    qed
  qed
  from single [OF assms(1)] single [OF assms(2)] show ?thesis by simp
qed

lemma valid_orders_unique:
  assumes "valid_orders tools orders1" and "valid_orders tools orders2"
    and "\<forall>tool \<in> set tools. \<exists>k. dom (Properties (InputSchema tool)) \<subseteq> {k}"
  shows "orders1 = orders2"
  using assms unfolding valid_orders_def
proof (induction tools arbitrary: orders1 orders2)
  case Nil
  then show ?case by simp
next
  case (Cons tool tools)
  from Cons.prems(1) obtain o1 os1 where 1: "orders1 = o1 # os1"
    "range_order (Properties (InputSchema tool)) o1"
    "list_all2 (\<lambda>tool kvs. range_order (Properties (InputSchema tool)) kvs) tools os1"
    by (auto simp: list_all2_Cons1)
  from Cons.prems(2) obtain o2 os2 where 2: "orders2 = o2 # os2"
    "range_order (Properties (InputSchema tool)) o2"
    "list_all2 (\<lambda>tool kvs. range_order (Properties (InputSchema tool)) kvs) tools os2"
    by (auto simp: list_all2_Cons1)
  from Cons.prems(3) obtain k where "dom (Properties (InputSchema tool)) \<subseteq> {k}" by auto
  with 1(2) 2(2) have "o1 = o2" by (rule range_order_unique)
  moreover from Cons.IH [OF 1(3) 2(3)] Cons.prems(3) have "os1 = os2" by simp
  ultimately show ?case using 1(1) 2(1) by simp
qed

text \<open>
  Claim C8, as amended.  \<open>GenerateToolPrompt\<close> returns the empty string for an empty list
  of tools.  For a non-empty list the returned string is a function of the tools and of
  the order in which each tool's \<open>Properties\<close> map is visited; when every tool has at
  most one property, any two runs return the same string.
\<close>

theorem prompt_determinism:
  "GenerateToolPrompt [] orders = [] \<and>
   (valid_orders tools orders1 \<and> valid_orders tools orders2 \<and>
    (\<forall>tool \<in> set tools. \<exists>k. dom (Properties (InputSchema tool)) \<subseteq> {k}) \<longrightarrow>
      GenerateToolPrompt tools orders1 = GenerateToolPrompt tools orders2)"
  using valid_orders_unique [of tools orders1 orders2]
  by (auto simp: GenerateToolPrompt_def)

theorem prompt_determinism_witness:
  "GenerateToolPrompt [] [] = [] \<and>
   valid_orders [ex_tool_one] [[(''a'', \<lparr>PropDescription = ''first''\<rparr>)]] \<and>
   GenerateToolPrompt [ex_tool_one] [[(''a'', \<lparr>PropDescription = ''first''\<rparr>)]] =
     prompt_header @ ''**t** - does'' @ [CHR 0x0A] @ params_label @ ''`a`(first)'' @
     [CHR 0x0A, CHR 0x0A] @ prompt_rules"
proof -
  let ?o = "[[(''a'', \<lparr>PropDescription = ''first''\<rparr>)]]"
  have 1: "valid_orders [ex_tool_one] ?o"
    by (simp add: valid_orders_def range_order_def ex_tool_one_def)
  have 2: "\<forall>tool \<in> set [ex_tool_one]. \<exists>k. dom (Properties (InputSchema tool)) \<subseteq> {k}"
    by (simp add: ex_tool_one_def)
  have 3: "GenerateToolPrompt [ex_tool_one] ?o =
     prompt_header @ ''**t** - does'' @ [CHR 0x0A] @ params_label @ ''`a`(first)'' @
     [CHR 0x0A, CHR 0x0A] @ prompt_rules"
    by (simp add: GenerateToolPrompt_def tool_section_def param_entry_def ex_tool_one_def)
  from prompt_determinism [of "[]" "[ex_tool_one]" ?o ?o] 1 2 3 show ?thesis by simp
qed

text \<open>
  The claim as stated fails for a tool with two properties: both orders of visiting
  them are possible, and the two runs list the parameters in different orders.
\<close>

theorem prompt_determinism_counterexample:
  "valid_orders [ex_tool_two]
     [[(''a'', \<lparr>PropDescription = []\<rparr>), (''b'', \<lparr>PropDescription = []\<rparr>)]] \<and>
   valid_orders [ex_tool_two]
     [[(''b'', \<lparr>PropDescription = []\<rparr>), (''a'', \<lparr>PropDescription = []\<rparr>)]] \<and>
   GenerateToolPrompt [ex_tool_two]
     [[(''a'', \<lparr>PropDescription = []\<rparr>), (''b'', \<lparr>PropDescription = []\<rparr>)]] \<noteq>
   GenerateToolPrompt [ex_tool_two]
     [[(''b'', \<lparr>PropDescription = []\<rparr>), (''a'', \<lparr>PropDescription = []\<rparr>)]]"
proof -
  have "[''b'' \<mapsto> \<lparr>PropDescription = []\<rparr>, ''a'' \<mapsto> \<lparr>PropDescription = []\<rparr>] =
        [''a'' \<mapsto> \<lparr>PropDescription = []\<rparr>, ''b'' \<mapsto> \<lparr>PropDescription = []\<rparr>]"
    by (rule ext) simp
  then show ?thesis
    by (simp add: valid_orders_def range_order_def ex_tool_two_def GenerateToolPrompt_def
        tool_section_def param_entry_def)
qed








end
